theory Spec2Isabelle
  imports Main
begin

section \<open>The object model the library works on\<close>

text \<open>
  The library (\<^verbatim>\<open>monkeypatch.py\<close>) rewrites entries of the namespaces of live classes,
  modules and objects. The model keeps an explicit store of objects. Each object has its own
  namespace (\<^verbatim>\<open>__dict__\<close>), a class, and, when it is a type, the list its \<^verbatim>\<open>mro()\<close>
  returns. What \<^verbatim>\<open>isinstance\<close> answers for the two classes the source asks about
  (\<^verbatim>\<open>type\<close> and Django's \<^verbatim>\<open>cached_property\<close>) is recorded in the kind of the object,
  and so is being a module, whose \<^verbatim>\<open>dir()\<close> lists the module's own names only.

  Functions are values. A function value carries its \<^verbatim>\<open>__name__\<close> and its code: a
  function of the user (identified by a number, its behaviour a parameter of the model), one of
  the four wrapper functions of the library, the \<^verbatim>\<open>_curried\<close> closure built by Django's
  \<^verbatim>\<open>curry\<close>, the closure \<^verbatim>\<open>wrapper_with_before\<close>, a function produced by South's
  \<^verbatim>\<open>memoize\<close> (the only functions that have an \<^verbatim>\<open>_invalidate\<close> attribute), or a method
  bound to its receiver.

  Call arguments are the positional ones; every wrapper of the source forwards
  \<^verbatim>\<open>**kwargs\<close> untouched, and they are left out.
\<close>

type_synonym addr = nat

datatype wrapper = WAfter | WPatch | WInsert | WModify

datatype val =
    VNone
  | VInt int
  | VStr string
  | VList "val list"
  | VRef addr
  | VFun string code
and code =
    Prim nat
  | Wrapper wrapper
  | Curried val "val list"
  | WrapperWithBefore val val
  | Memoized val
  | BoundMethod val val

datatype kind = KType | KModule | KCachedProperty | KOther

record pyobj =
  py_dict :: "string \<rightharpoonup> val"
  py_kind :: kind
  py_class :: addr
  py_mro :: "addr list"
  py_str :: string

type_synonym state = "addr \<Rightarrow> pyobj"

datatype exn =
    AttributeError string
  | TypeError string
  | KeyError string
  | RecursionError
  | Raised val

type_synonym 'a res = "(exn + 'a) \<times> state"

subsection \<open>The built-ins the source calls\<close>

text \<open>\<^verbatim>\<open>get_obj_mro\<close> (lines 81-85): the \<^verbatim>\<open>mro()\<close> of a type, of the class otherwise.\<close>

definition get_obj_mro :: "state \<Rightarrow> addr \<Rightarrow> addr list" where
  "get_obj_mro s obj =
     (if py_kind (s obj) = KType then py_mro (s obj) else py_mro (s (py_class (s obj))))"

text \<open>The \<^verbatim>\<open>for c in ...\<close> loop of \<^verbatim>\<open>get_dict_attr\<close>: the first namespace that has the name.\<close>

fun get_dict_attr_loop :: "state \<Rightarrow> addr list \<Rightarrow> string \<Rightarrow> val option" where
  "get_dict_attr_loop s [] attr = None"
| "get_dict_attr_loop s (c # cs) attr =
     (case py_dict (s c) attr of
        Some v \<Rightarrow> Some v
      | None \<Rightarrow> get_dict_attr_loop s cs attr)"

definition not_found_message :: "string \<Rightarrow> string \<Rightarrow> string" where
  "not_found_message attr obj_str =
     ''No attribute called '' @ attr @ '' found in class of '' @ obj_str @ '' or any superclass''"

text \<open>\<^verbatim>\<open>get_dict_attr\<close> (lines 88-93).\<close>

definition get_dict_attr :: "state \<Rightarrow> addr \<Rightarrow> string \<Rightarrow> exn + val" where
  "get_dict_attr s obj attr =
     (case get_dict_attr_loop s (obj # get_obj_mro s obj) attr of
        Some v \<Rightarrow> Inr v
      | None \<Rightarrow> Inl (AttributeError (not_found_message attr (py_str (s obj)))))"

text \<open>
  \<^verbatim>\<open>getattr\<close>, \<^verbatim>\<open>setattr\<close>, \<^verbatim>\<open>dir\<close> and \<^verbatim>\<open>hasattr\<close> of the interpreter.
  A read on a class or a module searches its own namespace and then its ancestry and returns
  the entry as it is stored, so a method read from its class is invoked with the receiver as
  the first call argument. A read on any other object returns an entry of the object's own
  namespace as it is stored, and a function found in the ancestry as a method bound to the
  object; a bound method is not bound again. Reading a \<^verbatim>\<open>cached_property\<close> through an
  instance, which would run it, is outside the model: the descriptor is returned (the source
  avoids that read, lines 97-107). The interpreter's own message for a missing attribute is not
  reproduced, the error carries the name. A write always goes to the object's own namespace.
\<close>

definition bind_method :: "val \<Rightarrow> addr \<Rightarrow> val" where
  "bind_method v obj =
     (case v of
        VFun nm c \<Rightarrow>
          (case c of
             BoundMethod f self \<Rightarrow> v
           | _ \<Rightarrow> VFun nm (BoundMethod v (VRef obj)))
      | _ \<Rightarrow> v)"

definition py_getattr :: "state \<Rightarrow> addr \<Rightarrow> string \<Rightarrow> exn + val" where
  "py_getattr s obj name =
     (if py_kind (s obj) = KType \<or> py_kind (s obj) = KModule then
        (case get_dict_attr_loop s (obj # get_obj_mro s obj) name of
           Some v \<Rightarrow> Inr v
         | None \<Rightarrow> Inl (AttributeError name))
      else
        (case py_dict (s obj) name of
           Some v \<Rightarrow> Inr v
         | None \<Rightarrow>
             (case get_dict_attr_loop s (get_obj_mro s obj) name of
                Some v \<Rightarrow> Inr (bind_method v obj)
              | None \<Rightarrow> Inl (AttributeError name))))"

definition py_setattr :: "state \<Rightarrow> addr \<Rightarrow> string \<Rightarrow> val \<Rightarrow> state" where
  "py_setattr s obj name v = s(obj := (s obj)\<lparr>py_dict := (py_dict (s obj))(name \<mapsto> v)\<rparr>)"

definition py_in_dir :: "state \<Rightarrow> addr \<Rightarrow> string \<Rightarrow> bool" where
  "py_in_dir s obj name =
     (if py_kind (s obj) = KModule then py_dict (s obj) name \<noteq> None
      else get_dict_attr_loop s (obj # get_obj_mro s obj) name \<noteq> None)"

text \<open>
  The \<^verbatim>\<open>_invalidate\<close> attribute: a memoized function has it, and a bound method shows the
  attributes of the function it binds.
\<close>

fun val_has_invalidate :: "val \<Rightarrow> bool"
  and is_memoized_code :: "code \<Rightarrow> bool" where
  "val_has_invalidate (VFun nm c) = is_memoized_code c"
| "val_has_invalidate VNone = False"
| "val_has_invalidate (VInt i) = False"
| "val_has_invalidate (VStr x) = False"
| "val_has_invalidate (VList xs) = False"
| "val_has_invalidate (VRef a) = False"
| "is_memoized_code (Memoized f) = True"
| "is_memoized_code (BoundMethod f self) = val_has_invalidate f"
| "is_memoized_code (Prim p) = False"
| "is_memoized_code (Wrapper w) = False"
| "is_memoized_code (Curried g stored) = False"
| "is_memoized_code (WrapperWithBefore b orig) = False"

text \<open>
  \<^verbatim>\<open>hasattr\<close>, for the three names the source asks for: \<^verbatim>\<open>__name__\<close>,
  \<^verbatim>\<open>_invalidate\<close> and \<^verbatim>\<open>__call__\<close>. Every function has the first and the last, a
  memoized one the second as well; \<^verbatim>\<open>None\<close>, numbers, strings and lists have none of them.
  For an object the answer is the lookup through its namespace and its ancestry, so what only a
  metaclass supplies (the \<^verbatim>\<open>__call__\<close> and \<^verbatim>\<open>__name__\<close> of a class) counts when it is
  entered there.
\<close>

definition py_hasattr :: "state \<Rightarrow> val \<Rightarrow> string \<Rightarrow> bool" where
  "py_hasattr s v name =
     (case v of
        VRef a \<Rightarrow> get_dict_attr_loop s (a # get_obj_mro s a) name \<noteq> None
      | VFun nm c \<Rightarrow>
          name = ''__name__'' \<or> name = ''__call__'' \<or> (name = ''_invalidate'' \<and> is_memoized_code c)
      | _ \<Rightarrow> False)"

definition is_cached_property :: "state \<Rightarrow> val \<Rightarrow> bool" where
  "is_cached_property s v = (case v of VRef a \<Rightarrow> py_kind (s a) = KCachedProperty | _ \<Rightarrow> False)"

section \<open>TemporaryPatcher\<close>

record TemporaryPatcher =
  class_or_instance :: addr
  method_name :: string
  original_function :: val
  replacement_function :: val

text \<open>\<^verbatim>\<open>__init__\<close> (lines 2-12): reads the current member, then installs the replacement.\<close>

definition TemporaryPatcher_init :: "state \<Rightarrow> addr \<Rightarrow> string \<Rightarrow> val \<Rightarrow> TemporaryPatcher res" where
  "TemporaryPatcher_init s coi name replacement =
     (case py_getattr s coi name of
        Inl e \<Rightarrow> (Inl e, s)
      | Inr orig \<Rightarrow>
          (Inr \<lparr>class_or_instance = coi, method_name = name,
                original_function = orig, replacement_function = replacement\<rparr>,
           py_setattr s coi name replacement))"

text \<open>\<^verbatim>\<open>__enter__\<close> (lines 14-15) and \<^verbatim>\<open>__exit__\<close> (lines 17-19); both return \<^verbatim>\<open>None\<close>.\<close>

definition TemporaryPatcher_enter :: "TemporaryPatcher \<Rightarrow> state \<Rightarrow> val res" where
  "TemporaryPatcher_enter p s = (Inr VNone, s)"

definition TemporaryPatcher_exit :: "TemporaryPatcher \<Rightarrow> state \<Rightarrow> val res" where
  "TemporaryPatcher_exit p s =
     (Inr VNone, py_setattr s (class_or_instance p) (method_name p) (original_function p))"

text \<open>
  The \<^verbatim>\<open>with\<close> statement around a patcher: enter, run the block, exit on every path.
  An exception of the block is swallowed only when \<^verbatim>\<open>__exit__\<close> returns a true value.
\<close>

fun truthy :: "val \<Rightarrow> bool" where
  "truthy VNone = False"
| "truthy (VInt i) = (i \<noteq> 0)"
| "truthy (VStr x) = (x \<noteq> [])"
| "truthy (VList xs) = (xs \<noteq> [])"
| "truthy v = True"

definition with_stmt :: "TemporaryPatcher \<Rightarrow> (state \<Rightarrow> val res) \<Rightarrow> state \<Rightarrow> val res" where
  "with_stmt p body s =
     (case TemporaryPatcher_enter p s of
        (Inl e, s1) \<Rightarrow> (Inl e, s1)
      | (Inr ctx, s1) \<Rightarrow>
          (case body s1 of
             (r, s2) \<Rightarrow>
               (case TemporaryPatcher_exit p s2 of
                  (Inl e, s3) \<Rightarrow> (Inl e, s3)
                | (Inr x, s3) \<Rightarrow>
                    (case r of
                       Inl e \<Rightarrow> if truthy x then (Inr VNone, s3) else (Inl e, s3)
                     | Inr v \<Rightarrow> (Inr v, s3)))))"

section \<open>Calling a value\<close>

text \<open>
  What is not code of this module is a parameter: the behaviour of the user's functions, of
  South's \<^verbatim>\<open>memoize\<close> and of the functions it returns, and of calling an object. Each
  behaviour receives the means to call a value in turn (a replacement of \<^verbatim>\<open>patch\<close> calls
  the original it is handed).
\<close>

type_synonym caller = "val \<Rightarrow> val list \<Rightarrow> state \<Rightarrow> val res"

record env =
  prim_call :: "nat \<Rightarrow> caller \<Rightarrow> val list \<Rightarrow> state \<Rightarrow> val res"
  memoize :: "state \<Rightarrow> val \<Rightarrow> exn + val"
  memoized_call :: "val \<Rightarrow> caller \<Rightarrow> val list \<Rightarrow> state \<Rightarrow> val res"
  object_call :: "addr \<Rightarrow> caller \<Rightarrow> val list \<Rightarrow> state \<Rightarrow> val res"

text \<open>
  The four wrapper functions (lines 230-235, 301-307, 363-369, 421-425). Their first two
  parameters are the replacement of the user and the original function.
\<close>

definition wrapper_with_after :: "caller \<Rightarrow> val \<Rightarrow> val \<Rightarrow> val list \<Rightarrow> state \<Rightarrow> val res" where
  "wrapper_with_after cl external_after_function original args s =
     (case cl original args s of
        (Inl e, s1) \<Rightarrow> (Inl e, s1)
      | (Inr result, s1) \<Rightarrow>
          (case cl external_after_function args s1 of
             (Inl e, s2) \<Rightarrow> (Inl e, s2)
           | (Inr ignored, s2) \<Rightarrow> (Inr result, s2)))"

definition wrapper_with_patch :: "caller \<Rightarrow> val \<Rightarrow> val \<Rightarrow> val list \<Rightarrow> state \<Rightarrow> val res" where
  "wrapper_with_patch cl external_patch_function original args s =
     cl external_patch_function (original # args) s"

definition wrapper_with_insert :: "caller \<Rightarrow> val \<Rightarrow> val \<Rightarrow> val list \<Rightarrow> state \<Rightarrow> val res" where
  "wrapper_with_insert cl external_patch_function original args s =
     cl external_patch_function args s"

definition wrapper_with_modify :: "caller \<Rightarrow> val \<Rightarrow> val \<Rightarrow> val list \<Rightarrow> state \<Rightarrow> val res" where
  "wrapper_with_modify cl external_modify_function original args s =
     (case cl original args s of
        (Inl e, s1) \<Rightarrow> (Inl e, s1)
      | (Inr result, s1) \<Rightarrow> cl external_modify_function (result # args) s1)"

fun run_wrapper :: "wrapper \<Rightarrow> caller \<Rightarrow> val \<Rightarrow> val \<Rightarrow> val list \<Rightarrow> state \<Rightarrow> val res" where
  "run_wrapper WAfter = wrapper_with_after"
| "run_wrapper WPatch = wrapper_with_patch"
| "run_wrapper WInsert = wrapper_with_insert"
| "run_wrapper WModify = wrapper_with_modify"

fun wrapper_name :: "wrapper \<Rightarrow> string" where
  "wrapper_name WAfter = ''wrapper_with_after''"
| "wrapper_name WPatch = ''wrapper_with_patch''"
| "wrapper_name WInsert = ''wrapper_with_insert''"
| "wrapper_name WModify = ''wrapper_with_modify''"

definition wrapper_function :: "wrapper \<Rightarrow> val" where
  "wrapper_function w = VFun (wrapper_name w) (Wrapper w)"

text \<open>
  \<^verbatim>\<open>wrapper_with_before\<close> (lines 205-207), the closure over \<^verbatim>\<open>before_function\<close> and
  \<^verbatim>\<open>original_function\<close>.
\<close>

definition wrapper_with_before :: "caller \<Rightarrow> val \<Rightarrow> val \<Rightarrow> val list \<Rightarrow> state \<Rightarrow> val res" where
  "wrapper_with_before cl before_function original args s =
     (case cl before_function args s of
        (Inl e, s1) \<Rightarrow> (Inl e, s1)
      | (Inr ignored, s1) \<Rightarrow> cl original args s1)"

text \<open>
  Django's \<^verbatim>\<open>curry\<close> (imported at line 239) returns the function \<^verbatim>\<open>_curried\<close>, which
  calls the curried function with the stored arguments in front of its own.
\<close>

definition django_curry :: "val \<Rightarrow> val list \<Rightarrow> val" where
  "django_curry f stored = VFun ''_curried'' (Curried f stored)"

text \<open>
  A call. The first argument is the number of frames left before the interpreter gives up with
  its recursion error; every function entered takes one, and so does a bound method, which
  calls its function with the receiver in front of the arguments. A wrapper function called
  with fewer than its two named parameters is a \<^verbatim>\<open>TypeError\<close>, and so is calling a value
  that is neither a function nor an object.
\<close>

primrec call :: "nat \<Rightarrow> env \<Rightarrow> val \<Rightarrow> val list \<Rightarrow> state \<Rightarrow> val res" where
  "call 0 E f args s = (Inl RecursionError, s)"
| "call (Suc d) E f args s =
     (case f of
        VFun nm c \<Rightarrow>
          (case c of
             Prim p \<Rightarrow> prim_call E p (call d E) args s
           | Wrapper w \<Rightarrow>
               (case args of
                  ext # orig # rest \<Rightarrow> run_wrapper w (call d E) ext orig rest s
                | _ \<Rightarrow> (Inl (TypeError (nm @ ''() takes at least 2 arguments'')), s))
           | Curried g stored \<Rightarrow> call d E g (stored @ args) s
           | WrapperWithBefore before_function orig \<Rightarrow>
               wrapper_with_before (call d E) before_function orig args s
           | Memoized g \<Rightarrow> memoized_call E g (call d E) args s
           | BoundMethod g self \<Rightarrow> call d E g (self # args) s)
      | VRef a \<Rightarrow> object_call E a (call d E) args s
      | _ \<Rightarrow> (Inl (TypeError ''object is not callable''), s))"

text \<open>Invoking a member: read the attribute of the target, then call what was read.\<close>

definition invoke :: "nat \<Rightarrow> env \<Rightarrow> addr \<Rightarrow> string \<Rightarrow> val list \<Rightarrow> state \<Rightarrow> val res" where
  "invoke d E target name args s =
     (case py_getattr s target name of
        Inl e \<Rightarrow> (Inl e, s)
      | Inr f \<Rightarrow> call d E f args s)"

section \<open>get\_decorator\_or\_context\_object\<close>

text \<open>
  The closure \<^verbatim>\<open>final_decorator\<close> (lines 131-157) with the variables it captures, and the
  two kinds of value \<^verbatim>\<open>get_decorator_or_context_object\<close> returns.
\<close>

record final_decorator =
  fd_class_or_instance :: addr
  fd_method_name :: string
  fd_wrapper_function :: val
  fd_original_function :: val
  fd_memoize_the_replacement :: bool

datatype handle = Decorator final_decorator | ContextObject TemporaryPatcher

text \<open>
  Lines 95-107: the resolution, and the switch to the \<^verbatim>\<open>func\<close> slot of a
  \<^verbatim>\<open>cached_property\<close>. The result is the object to patch, the original function and the
  name to patch.
\<close>

definition resolve :: "state \<Rightarrow> addr \<Rightarrow> string \<Rightarrow> exn + (addr \<times> val \<times> string)" where
  "resolve s coi name =
     (case get_dict_attr s coi name of
        Inl e \<Rightarrow> Inl e
      | Inr found \<Rightarrow>
          (if is_cached_property s found then
             (case found of
                VRef a \<Rightarrow>
                  (case py_getattr s a ''func'' of
                     Inl e \<Rightarrow> Inl e
                   | Inr f \<Rightarrow> Inr (a, f, ''func''))
              | _ \<Rightarrow> Inr (coi, found, name))
           else Inr (coi, found, name)))"

text \<open>Lines 112-116.\<close>

definition looks_memoized :: "state \<Rightarrow> val \<Rightarrow> bool" where
  "looks_memoized s f = (py_hasattr s f ''__name__'' \<and> py_hasattr s f ''_invalidate'')"

text \<open>
  Lines 118-180. The replacement \<^verbatim>\<open>None\<close> (the default) asks for the decorator; any other
  value is patched in at once.
\<close>

definition get_decorator_or_context_object ::
  "env \<Rightarrow> state \<Rightarrow> addr \<Rightarrow> string \<Rightarrow> val \<Rightarrow> val \<Rightarrow> handle res" where
  "get_decorator_or_context_object E s coi name wrapper_fn external_replacement_function =
     (case resolve s coi name of
        Inl e \<Rightarrow> (Inl e, s)
      | Inr (coi', orig, name') \<Rightarrow>
          (let memoize_the_replacement = looks_memoized s orig in
           if external_replacement_function = VNone then
             (Inr (Decorator \<lparr>fd_class_or_instance = coi', fd_method_name = name',
                               fd_wrapper_function = wrapper_fn, fd_original_function = orig,
                               fd_memoize_the_replacement = memoize_the_replacement\<rparr>), s)
           else
             (case (if memoize_the_replacement then memoize E s external_replacement_function
                    else Inr external_replacement_function) of
                Inl e \<Rightarrow> (Inl e, s)
              | Inr ext \<Rightarrow>
                  (case (if py_hasattr s ext ''__call__''
                         then TemporaryPatcher_init s coi' name' (django_curry wrapper_fn [ext, orig])
                         else TemporaryPatcher_init s coi' name' ext) of
                     (Inl e, s1) \<Rightarrow> (Inl e, s1)
                   | (Inr p, s1) \<Rightarrow> (Inr (ContextObject p), s1)))))"

text \<open>
  Reading \<^verbatim>\<open>__name__\<close> of a value and assigning the \<^verbatim>\<open>__name__\<close> of the replacement
  (line 149). A function takes a string only; the renamed function is the one installed, so it
  is written again where it was installed.
\<close>

definition py_name :: "state \<Rightarrow> val \<Rightarrow> val option" where
  "py_name s v =
     (case v of
        VFun nm c \<Rightarrow> Some (VStr nm)
      | VRef a \<Rightarrow> get_dict_attr_loop s (a # get_obj_mro s a) ''__name__''
      | _ \<Rightarrow> None)"

definition assign_name :: "state \<Rightarrow> addr \<Rightarrow> string \<Rightarrow> val \<Rightarrow> val \<Rightarrow> exn + state" where
  "assign_name s coi name actual new_name =
     (case actual of
        VFun nm c \<Rightarrow>
          (case new_name of
             VStr n \<Rightarrow> Inr (py_setattr s coi name (VFun n c))
           | _ \<Rightarrow> Inl (TypeError ''__name__ must be set to a string object''))
      | VRef a \<Rightarrow> Inr (py_setattr s a ''__name__'' new_name)
      | _ \<Rightarrow> Inl (AttributeError ''__name__''))"

text \<open>\<^verbatim>\<open>final_decorator\<close> applied to the function of the user (lines 131-157).\<close>

definition final_decorator_apply :: "env \<Rightarrow> final_decorator \<Rightarrow> val \<Rightarrow> state \<Rightarrow> val res" where
  "final_decorator_apply E fd external_replacement_function s =
     (let curried = django_curry (fd_wrapper_function fd)
                      [external_replacement_function, fd_original_function fd] in
      case (if fd_memoize_the_replacement fd then memoize E s curried else Inr curried) of
        Inl e \<Rightarrow> (Inl e, s)
      | Inr actual_final_replacement \<Rightarrow>
          (let s1 = py_setattr s (fd_class_or_instance fd) (fd_method_name fd)
                      actual_final_replacement in
           if py_kind (s1 (fd_class_or_instance fd)) = KCachedProperty then
             (case py_name s1 (fd_original_function fd) of
                None \<Rightarrow> (Inl (AttributeError ''__name__''), s1)
              | Some n \<Rightarrow>
                  (case assign_name s1 (fd_class_or_instance fd) (fd_method_name fd)
                          actual_final_replacement n of
                     Inl e \<Rightarrow> (Inl e, s1)
                   | Inr s2 \<Rightarrow> (Inr external_replacement_function, s2)))
           else (Inr external_replacement_function, s1)))"

section \<open>The combinators\<close>

text \<open>
  \<^verbatim>\<open>before\<close> (lines 203-211) does not go through \<^verbatim>\<open>get_decorator_or_context_object\<close>: it
  reads the member with \<^verbatim>\<open>getattr\<close> and returns the closure \<^verbatim>\<open>decorator\<close>.
\<close>

record before_decorator =
  bd_target :: addr
  bd_method_name :: string
  bd_original_function :: val

definition before :: "state \<Rightarrow> addr \<Rightarrow> string \<Rightarrow> before_decorator res" where
  "before s target name =
     (case py_getattr s target name of
        Inl e \<Rightarrow> (Inl e, s)
      | Inr orig \<Rightarrow>
          (Inr \<lparr>bd_target = target, bd_method_name = name, bd_original_function = orig\<rparr>, s))"

definition before_decorator_apply :: "before_decorator \<Rightarrow> val \<Rightarrow> state \<Rightarrow> val res" where
  "before_decorator_apply bd before_function s =
     (let w = VFun ''wrapper_with_before''
                (WrapperWithBefore before_function (bd_original_function bd)) in
      (Inr w, py_setattr s (bd_target bd) (bd_method_name bd) w))"

definition after :: "env \<Rightarrow> state \<Rightarrow> addr \<Rightarrow> string \<Rightarrow> val \<Rightarrow> handle res" where
  "after E s coi name bare_replacement_function =
     get_decorator_or_context_object E s coi name (wrapper_function WAfter)
       bare_replacement_function"

definition patch :: "env \<Rightarrow> state \<Rightarrow> addr \<Rightarrow> string \<Rightarrow> val \<Rightarrow> handle res" where
  "patch E s coi name bare_replacement_function =
     get_decorator_or_context_object E s coi name (wrapper_function WPatch)
       bare_replacement_function"

text \<open>
  \<^verbatim>\<open>insert\<close> (lines 371-380). In the \<^verbatim>\<open>raise\<close> of line 372 the operator \<^verbatim>\<open>%\<close> binds
  tighter than the comma: the format string with its two \<^verbatim>\<open>%s\<close> is applied to
  \<^verbatim>\<open>class_or_instance\<close> alone, which raises the \<^verbatim>\<open>TypeError\<close> of string formatting
  before any \<^verbatim>\<open>KeyError\<close> is built.
\<close>

definition insert_fn :: "env \<Rightarrow> state \<Rightarrow> addr \<Rightarrow> string \<Rightarrow> val \<Rightarrow> handle res" where
  "insert_fn E s coi name bare_inserted_function =
     (if py_in_dir s coi name then
        (Inl (TypeError ''not enough arguments for format string''), s)
      else
        get_decorator_or_context_object E (py_setattr s coi name VNone) coi name
          (wrapper_function WInsert) bare_inserted_function)"

definition modify_return_value :: "env \<Rightarrow> state \<Rightarrow> addr \<Rightarrow> string \<Rightarrow> val \<Rightarrow> handle res" where
  "modify_return_value E s coi name bare_replacement_function =
     get_decorator_or_context_object E s coi name (wrapper_function WModify)
       bare_replacement_function"

section \<open>The programs of the scenarios\<close>

text \<open>
  The functions and objects of the scenarios of the specification, on which the theorems below
  are run. User functions, by number: 0 is \<^verbatim>\<open>compute(x)\<close> returning \<^verbatim>\<open>x * 2\<close>; 1 is
  \<^verbatim>\<open>greet(self, name)\<close> returning \<^verbatim>\<open>"Hi " + name\<close>; 2 is
  \<^verbatim>\<open>lambda orig, x: orig(x) + 1\<close>; 3 appends its call arguments to the list \<^verbatim>\<open>log\<close> of
  object 5; 4 is \<^verbatim>\<open>lambda result, *args: result.upper()\<close>; 5 is \<^verbatim>\<open>lambda: 42\<close>; 6 is
  \<^verbatim>\<open>title(self)\<close> returning \<^verbatim>\<open>"Hi Sam"\<close>; 7 is
  \<^verbatim>\<open>lambda orig, self: orig(self).upper()\<close>; any other number is not a function of the
  scenarios and raises.

  The memoization facility of the example environment is South's \<^verbatim>\<open>memoize\<close>: the function
  \<^verbatim>\<open>method(self)\<close> it returns is named after the wrapped one and takes exactly one
  argument. When the receiver has no attribute \<^verbatim>\<open>'_' + name\<close>, it calls the wrapped function
  on the receiver and stores the result under that attribute of the receiver; then it returns
  the attribute. A receiver that takes no attributes (\<^verbatim>\<open>None\<close>, a number, a string, a list)
  makes the store fail with an \<^verbatim>\<open>AttributeError\<close>. The model keeps no attributes of
  functions, so for a receiver that is a function the result is computed and not cached.

  Objects, by address: 0 is the module \<^verbatim>\<open>m\<close>, 1 the type of modules, 2 \<^verbatim>\<open>object\<close>, 3
  the class \<^verbatim>\<open>Greeter\<close>, 4 \<^verbatim>\<open>type\<close>, 5 the holder of the log, 6 an instance of
  \<^verbatim>\<open>Greeter\<close>, 7 the \<^verbatim>\<open>cached_property\<close> that is \<^verbatim>\<open>Greeter.full_name\<close>, 8 the
  class \<^verbatim>\<open>cached_property\<close>.
\<close>

definition upper_char :: "char \<Rightarrow> char" where
  "upper_char c =
     (case map_of (zip ''abcdefghijklmnopqrstuvwxyz'' ''ABCDEFGHIJKLMNOPQRSTUVWXYZ'') c of
        Some u \<Rightarrow> u
      | None \<Rightarrow> c)"

definition compute_fn :: "caller \<Rightarrow> val list \<Rightarrow> state \<Rightarrow> val res" where
  "compute_fn cl args s =
     (case args of
        [VInt x] \<Rightarrow> (Inr (VInt (x * 2)), s)
      | _ \<Rightarrow> (Inl (TypeError ''compute() takes one number''), s))"

definition greet_fn :: "caller \<Rightarrow> val list \<Rightarrow> state \<Rightarrow> val res" where
  "greet_fn cl args s =
     (case args of
        [self, VStr name] \<Rightarrow> (Inr (VStr (''Hi '' @ name)), s)
      | _ \<Rightarrow> (Inl (TypeError ''greet() takes self and a name''), s))"

definition add_one_around :: "caller \<Rightarrow> val list \<Rightarrow> state \<Rightarrow> val res" where
  "add_one_around cl args s =
     (case args of
        [orig, x] \<Rightarrow>
          (case cl orig [x] s of
             (Inl e, s1) \<Rightarrow> (Inl e, s1)
           | (Inr (VInt r), s1) \<Rightarrow> (Inr (VInt (r + 1)), s1)
           | (Inr other, s1) \<Rightarrow> (Inl (TypeError ''unsupported operand''), s1))
      | _ \<Rightarrow> (Inl (TypeError ''<lambda>() takes 2 arguments''), s))"

definition log_call :: "caller \<Rightarrow> val list \<Rightarrow> state \<Rightarrow> val res" where
  "log_call cl args s =
     (case py_dict (s 5) ''log'' of
        Some (VList entries) \<Rightarrow> (Inr VNone, py_setattr s 5 ''log'' (VList (entries @ [VList args])))
      | _ \<Rightarrow> (Inl (AttributeError ''log''), s))"

definition upper_result :: "caller \<Rightarrow> val list \<Rightarrow> state \<Rightarrow> val res" where
  "upper_result cl args s =
     (case args of
        VStr result # rest \<Rightarrow> (Inr (VStr (map upper_char result)), s)
      | _ \<Rightarrow> (Inl (AttributeError ''upper''), s))"

definition forty_two :: "caller \<Rightarrow> val list \<Rightarrow> state \<Rightarrow> val res" where
  "forty_two cl args s =
     (case args of
        [] \<Rightarrow> (Inr (VInt 42), s)
      | _ \<Rightarrow> (Inl (TypeError ''<lambda>() takes no arguments''), s))"

definition title_fn :: "caller \<Rightarrow> val list \<Rightarrow> state \<Rightarrow> val res" where
  "title_fn cl args s =
     (case args of
        [self] \<Rightarrow> (Inr (VStr ''Hi Sam''), s)
      | _ \<Rightarrow> (Inl (TypeError ''title() takes self''), s))"

definition upper_around :: "caller \<Rightarrow> val list \<Rightarrow> state \<Rightarrow> val res" where
  "upper_around cl args s =
     (case args of
        [orig, self] \<Rightarrow>
          (case cl orig [self] s of
             (Inl e, s1) \<Rightarrow> (Inl e, s1)
           | (Inr (VStr r), s1) \<Rightarrow> (Inr (VStr (map upper_char r)), s1)
           | (Inr other, s1) \<Rightarrow> (Inl (AttributeError ''upper''), s1))
      | _ \<Rightarrow> (Inl (TypeError ''<lambda>() takes 2 arguments''), s))"

definition example_prim :: "nat \<Rightarrow> caller \<Rightarrow> val list \<Rightarrow> state \<Rightarrow> val res" where
  "example_prim p =
     (if p = 0 then compute_fn
      else if p = 1 then greet_fn
      else if p = 2 then add_one_around
      else if p = 3 then log_call
      else if p = 4 then upper_result
      else if p = 5 then forty_two
      else if p = 6 then title_fn
      else if p = 7 then upper_around
      else (\<lambda>cl args s. (Inl (TypeError ''not a function of the scenarios''), s)))"

definition example_memoize :: "state \<Rightarrow> val \<Rightarrow> exn + val" where
  "example_memoize s f =
     (case py_name s f of
        Some (VStr n) \<Rightarrow> Inr (VFun n (Memoized f))
      | _ \<Rightarrow> Inl (AttributeError ''__name__''))"

definition read_cached :: "addr \<Rightarrow> string \<Rightarrow> state \<Rightarrow> val res" where
  "read_cached a key s =
     (case py_getattr s a key of
        Inl e \<Rightarrow> (Inl e, s)
      | Inr v \<Rightarrow> (Inr v, s))"

definition memoized_method :: "string \<Rightarrow> val \<Rightarrow> caller \<Rightarrow> val \<Rightarrow> state \<Rightarrow> val res" where
  "memoized_method key f cl self s =
     (case self of
        VRef a \<Rightarrow>
          (if py_hasattr s self key then read_cached a key s
           else
             (case cl f [self] s of
                (Inl e, s1) \<Rightarrow> (Inl e, s1)
              | (Inr v, s1) \<Rightarrow> read_cached a key (py_setattr s1 a key v)))
      | VFun nm c \<Rightarrow> cl f [self] s
      | _ \<Rightarrow>
          (case cl f [self] s of
             (Inl e, s1) \<Rightarrow> (Inl e, s1)
           | (Inr v, s1) \<Rightarrow> (Inl (AttributeError key), s1)))"

definition example_memoized_call :: "val \<Rightarrow> caller \<Rightarrow> val list \<Rightarrow> state \<Rightarrow> val res" where
  "example_memoized_call f cl args s =
     (case args of
        [self] \<Rightarrow>
          (case py_name s f of
             Some (VStr n) \<Rightarrow> memoized_method (''_'' @ n) f cl self s
           | _ \<Rightarrow> (Inl (AttributeError ''__name__''), s))
      | _ \<Rightarrow> (Inl (TypeError ''method() takes exactly 1 argument''), s))"

definition example_env :: env where
  "example_env =
     \<lparr>prim_call = example_prim,
      memoize = example_memoize,
      memoized_call = example_memoized_call,
      object_call = (\<lambda>a cl args s. (Inl (TypeError ''object is not callable''), s))\<rparr>"

definition plain_object :: pyobj where
  "plain_object =
     \<lparr>py_dict = Map.empty, py_kind = KOther, py_class = 2, py_mro = [], py_str = ''<object>''\<rparr>"

definition example_store :: state where
  "example_store =
     (\<lambda>a. plain_object)
       (0 := \<lparr>py_dict = [''compute'' \<mapsto> VFun ''compute'' (Prim 0)], py_kind = KModule,
              py_class = 1, py_mro = [], py_str = ''<module m>''\<rparr>,
        1 := \<lparr>py_dict = Map.empty, py_kind = KType, py_class = 4, py_mro = [1, 2],
              py_str = ''<type module>''\<rparr>,
        2 := \<lparr>py_dict = Map.empty, py_kind = KType, py_class = 4, py_mro = [2],
              py_str = ''<type object>''\<rparr>,
        3 := \<lparr>py_dict = [''greet'' \<mapsto> VFun ''greet'' (Prim 1), ''full_name'' \<mapsto> VRef 7],
              py_kind = KType, py_class = 4, py_mro = [3, 2], py_str = ''<class Greeter>''\<rparr>,
        4 := \<lparr>py_dict = Map.empty, py_kind = KType, py_class = 4, py_mro = [4, 2],
              py_str = ''<type type>''\<rparr>,
        5 := \<lparr>py_dict = [''log'' \<mapsto> VList []], py_kind = KOther, py_class = 2, py_mro = [],
              py_str = ''<log>''\<rparr>,
        6 := \<lparr>py_dict = Map.empty, py_kind = KOther, py_class = 3, py_mro = [],
              py_str = ''<Greeter object>''\<rparr>,
        7 := \<lparr>py_dict = [''func'' \<mapsto> VFun ''full_name'' (Prim 6)], py_kind = KCachedProperty,
              py_class = 8, py_mro = [], py_str = ''<cached_property object>''\<rparr>,
        8 := \<lparr>py_dict = Map.empty, py_kind = KType, py_class = 4, py_mro = [8, 2],
              py_str = ''<class cached_property>''\<rparr>)"

text \<open>The same objects, with a class whose method \<^verbatim>\<open>title\<close> South has memoized.\<close>

definition memoized_store :: state where
  "memoized_store =
     example_store
       (3 := \<lparr>py_dict = [''title'' \<mapsto> VFun ''title'' (Memoized (VFun ''title'' (Prim 6)))],
              py_kind = KType, py_class = 4, py_mro = [3, 2], py_str = ''<class Greeter>''\<rparr>)"

text \<open>The memoized method and the two replacements of the scenarios on it.\<close>

abbreviation memoized_title :: val where
  "memoized_title \<equiv> VFun ''title'' (Memoized (VFun ''title'' (Prim 6)))"

abbreviation upper_around_lambda :: val where
  "upper_around_lambda \<equiv> VFun ''<lambda>'' (Prim 7)"

abbreviation upper_result_lambda :: val where
  "upper_result_lambda \<equiv> VFun ''<lambda>'' (Prim 4)"

section \<open>Facts about the store\<close>

lemmas example_defs = example_store_def memoized_store_def example_env_def example_prim_def
  compute_fn_def greet_fn_def add_one_around_def log_call_def upper_result_def forty_two_def
  title_fn_def upper_around_def example_memoize_def example_memoized_call_def
  memoized_method_def read_cached_def plain_object_def upper_char_def

lemma get_obj_mro_py_setattr [simp]:
  "get_obj_mro (py_setattr s a n v) b = get_obj_mro s b"
  by (simp add: get_obj_mro_def py_setattr_def)

lemma py_dict_py_setattr_same [simp]:
  "py_dict (py_setattr s a n v a) n = Some v"
  by (simp add: py_setattr_def)

lemma py_kind_py_setattr [simp]:
  "py_kind (py_setattr s a n v b) = py_kind (s b)"
  by (simp add: py_setattr_def)

lemma py_getattr_py_setattr_same [simp]:
  "py_getattr (py_setattr s a n v) a n = Inr v"
  by (simp add: py_getattr_def)

lemma get_dict_attr_py_setattr_same [simp]:
  "get_dict_attr (py_setattr s a n v) a n = Inr v"
  by (simp add: get_dict_attr_def)

lemma py_setattr_overwrite [simp]:
  "py_setattr (py_setattr s a n v) a n w = py_setattr s a n w"
  by (simp add: py_setattr_def)

lemma py_setattr_stored_value:
  "py_dict (s a) n = Some v \<Longrightarrow> py_setattr s a n v = s"
  by (simp add: py_setattr_def map_upd_triv)

lemma loop_None_iff:
  "get_dict_attr_loop s cs n = None \<longleftrightarrow> (\<forall>c \<in> set cs. py_dict (s c) n = None)"
  by (induction cs) (auto split: option.splits)

lemma resolve_plain:
  "get_dict_attr s t n = Inr orig \<Longrightarrow> \<not> is_cached_property s orig \<Longrightarrow>
     resolve s t n = Inr (t, orig, n)"
  by (simp add: resolve_def)

lemma py_getattr_found:
  "get_dict_attr s t n = Inr v \<Longrightarrow> \<exists>got. py_getattr s t n = Inr got"
  by (auto simp: get_dict_attr_def py_getattr_def split: option.splits)

lemma py_getattr_raw:
  "py_kind (s t) = KType \<or> py_kind (s t) = KModule \<Longrightarrow> get_dict_attr s t n = Inr v \<Longrightarrow>
     py_getattr s t n = Inr v"
  by (auto simp: get_dict_attr_def py_getattr_def split: option.splits)

lemma not_callable_VNone [simp]: "\<not> py_hasattr s VNone name"
  by (simp add: py_hasattr_def)

lemma function_not_cached_property: "\<not> is_cached_property s (VFun nm c)"
  by (simp add: is_cached_property_def)

lemma user_function_not_memoized: "\<not> looks_memoized s (VFun nm (Prim k))"
  by (simp add: looks_memoized_def py_hasattr_def)

lemma memoized_looks_memoized: "looks_memoized s (VFun nm (Memoized f))"
  by (simp add: looks_memoized_def py_hasattr_def)

lemma function_callable: "py_hasattr s (VFun nm c) ''__call__''"
  by (simp add: py_hasattr_def)

lemma curried_not_cached_property_nor_memoized:
  "\<not> is_cached_property s (django_curry f stored)" "\<not> looks_memoized s (django_curry f stored)"
  by (simp_all add: django_curry_def is_cached_property_def looks_memoized_def py_hasattr_def)

lemma call_numeral:
  "call (numeral k) E f args s =
     (case f of
        VFun nm c \<Rightarrow>
          (case c of
             Prim p \<Rightarrow> prim_call E p (call (pred_numeral k) E) args s
           | Wrapper w \<Rightarrow>
               (case args of
                  ext # orig # rest \<Rightarrow> run_wrapper w (call (pred_numeral k) E) ext orig rest s
                | _ \<Rightarrow> (Inl (TypeError (nm @ ''() takes at least 2 arguments'')), s))
           | Curried g stored \<Rightarrow> call (pred_numeral k) E g (stored @ args) s
           | WrapperWithBefore before_function orig \<Rightarrow>
               wrapper_with_before (call (pred_numeral k) E) before_function orig args s
           | Memoized g \<Rightarrow> memoized_call E g (call (pred_numeral k) E) args s
           | BoundMethod g self \<Rightarrow> call (pred_numeral k) E g (self # args) s)
      | VRef a \<Rightarrow> object_call E a (call (pred_numeral k) E) args s
      | _ \<Rightarrow> (Inl (TypeError ''object is not callable''), s))"
  by (simp add: numeral_eq_Suc)

section \<open>Facts about the scenarios\<close>

lemma example_mro_module: "get_obj_mro example_store 0 = [1, 2]"
  by (simp add: get_obj_mro_def example_defs)

lemma memoized_mro_class: "get_obj_mro memoized_store 3 = [3, 2]"
  by (simp add: get_obj_mro_def example_defs)

lemma example_compute:
  "get_dict_attr example_store 0 ''compute'' = Inr (VFun ''compute'' (Prim 0))"
  by (simp add: get_dict_attr_def example_mro_module) (simp add: example_defs)

lemma example_compute_own:
  "py_dict (example_store 0) ''compute'' = Some (VFun ''compute'' (Prim 0))"
  by (simp add: example_defs)

lemma example_greet:
  "get_dict_attr example_store 3 ''greet'' = Inr (VFun ''greet'' (Prim 1))"
  by (simp add: get_dict_attr_def get_obj_mro_def example_defs)

lemma example_kinds:
  "py_kind (example_store 0) = KModule" "py_kind (example_store 3) = KType"
  "py_kind (memoized_store 3) = KType" "py_kind (example_store 7) = KCachedProperty"
  by (simp_all add: example_defs)

lemma example_compute_getattr:
  "py_getattr example_store 0 ''compute'' = Inr (VFun ''compute'' (Prim 0))"
  using example_compute by (simp add: py_getattr_raw example_kinds)

lemma example_greet_getattr:
  "py_getattr example_store 3 ''greet'' = Inr (VFun ''greet'' (Prim 1))"
  using example_greet by (simp add: py_getattr_raw example_kinds)

lemma example_new_fn_fresh: "\<not> py_in_dir example_store 0 ''new_fn''"
  by (simp add: py_in_dir_def example_defs)

lemma example_new_fn_missing:
  "py_getattr example_store 0 ''new_fn'' = Inl (AttributeError ''new_fn'')"
  by (simp add: py_getattr_def example_mro_module example_kinds) (simp add: example_defs)

lemma example_module_kind: "py_kind (example_store 0) \<noteq> KCachedProperty"
  by (simp add: example_defs)

lemma memoized_title:
  "get_dict_attr memoized_store 3 ''title''
     = Inr (VFun ''title'' (Memoized (VFun ''title'' (Prim 6))))"
  by (simp add: get_dict_attr_def memoized_mro_class) (simp add: example_defs)

lemma example_memoize_function:
  "memoize example_env s (VFun nm c) = Inr (VFun nm (Memoized (VFun nm c)))"
  by (simp add: example_env_def example_memoize_def py_name_def)

section \<open>Restoring\<close>

text \<open>
  Claim C8. Leaving the scope of a patcher twice is safe. The second \<^verbatim>\<open>__exit__\<close> returns
  normally, writes the stored original function once more and leaves the store exactly as the
  first one left it; the member read from the target is the stored original function.
\<close>

theorem restore_twice:
  "TemporaryPatcher_exit p (snd (TemporaryPatcher_exit p s))
     = (Inr VNone, snd (TemporaryPatcher_exit p s))
   \<and> py_getattr (snd (TemporaryPatcher_exit p (snd (TemporaryPatcher_exit p s))))
         (class_or_instance p) (method_name p) = Inr (original_function p)"
  by (simp add: TemporaryPatcher_exit_def)

text \<open>
  Claim C9. Two temporary patches of the same member, one after the other: the second patcher
  stores the replacement of the first as its original function. Leaving only the second scope
  gives back the store of the first patch, in which the member is the first replacement, not
  the function that was there before both, which only the first patcher still holds.
\<close>

theorem second_patch_captures_first:
  assumes "TemporaryPatcher_init s t n r1 = (Inr p1, s1)"
  shows "\<exists>p2 s2. TemporaryPatcher_init s1 t n r2 = (Inr p2, s2)
           \<and> py_getattr s t n = Inr (original_function p1)
           \<and> original_function p2 = r1
           \<and> snd (TemporaryPatcher_exit p2 s2) = s1
           \<and> py_getattr (snd (TemporaryPatcher_exit p2 s2)) t n = Inr r1"
  using assms
  by (auto simp: TemporaryPatcher_init_def TemporaryPatcher_exit_def split: sum.splits)

theorem second_patch_captures_first_witness:
  "TemporaryPatcher_init example_store 0 ''compute'' (VFun ''first'' (Prim 5)) =
     (Inr \<lparr>class_or_instance = 0, method_name = ''compute'',
           original_function = VFun ''compute'' (Prim 0),
           replacement_function = VFun ''first'' (Prim 5)\<rparr>,
      py_setattr example_store 0 ''compute'' (VFun ''first'' (Prim 5)))
   \<and> (\<exists>p2 s2. TemporaryPatcher_init (py_setattr example_store 0 ''compute'' (VFun ''first'' (Prim 5)))
                  0 ''compute'' (VFun ''second'' (Prim 5)) = (Inr p2, s2)
           \<and> py_getattr example_store 0 ''compute'' = Inr (VFun ''compute'' (Prim 0))
           \<and> original_function p2 = VFun ''first'' (Prim 5)
           \<and> snd (TemporaryPatcher_exit p2 s2)
               = py_setattr example_store 0 ''compute'' (VFun ''first'' (Prim 5))
           \<and> py_getattr (snd (TemporaryPatcher_exit p2 s2)) 0 ''compute''
               = Inr (VFun ''first'' (Prim 5)))"
proof -
  have h: "TemporaryPatcher_init example_store 0 ''compute'' (VFun ''first'' (Prim 5)) =
     (Inr \<lparr>class_or_instance = 0, method_name = ''compute'',
           original_function = VFun ''compute'' (Prim 0),
           replacement_function = VFun ''first'' (Prim 5)\<rparr>,
      py_setattr example_store 0 ''compute'' (VFun ''first'' (Prim 5)))"
    by (simp add: TemporaryPatcher_init_def example_compute_getattr)
  show ?thesis
    using h second_patch_captures_first [OF h, of "VFun ''second'' (Prim 5)"] by simp
qed

section \<open>Resolution\<close>

text \<open>
  Claim C5. When neither the target's own namespace nor any class of its ancestry has the
  name, \<^verbatim>\<open>get_dict_attr\<close> fails with an \<^verbatim>\<open>AttributeError\<close> whose message carries the
  name and the description of the target, and \<^verbatim>\<open>get_decorator_or_context_object\<close>
  (so \<^verbatim>\<open>after\<close>, \<^verbatim>\<open>patch\<close> and \<^verbatim>\<open>modify_return_value\<close>) passes that error on with the
  store as it was.
\<close>

theorem resolution_not_found:
  assumes "\<forall>c \<in> set (t # get_obj_mro s t). py_dict (s c) n = None"
  shows "get_dict_attr s t n =
           Inl (AttributeError (''No attribute called '' @ n @ '' found in class of ''
                  @ py_str (s t) @ '' or any superclass''))
         \<and> get_decorator_or_context_object E s t n wfn r =
             (Inl (AttributeError (''No attribute called '' @ n @ '' found in class of ''
                  @ py_str (s t) @ '' or any superclass'')), s)"
proof -
  have "get_dict_attr_loop s (t # get_obj_mro s t) n = None"
    using assms by (simp only: loop_None_iff)
  then have g: "get_dict_attr s t n =
           Inl (AttributeError (''No attribute called '' @ n @ '' found in class of ''
                  @ py_str (s t) @ '' or any superclass''))"
    by (simp add: get_dict_attr_def not_found_message_def)
  then show ?thesis
    by (simp add: get_decorator_or_context_object_def resolve_def)
qed

theorem resolution_not_found_witness:
  "get_obj_mro example_store 0 = [1, 2]
   \<and> py_dict (example_store 0) ''missing'' = None
   \<and> py_dict (example_store 1) ''missing'' = None
   \<and> py_dict (example_store 2) ''missing'' = None
   \<and> get_dict_attr example_store 0 ''missing'' =
        Inl (AttributeError ''No attribute called missing found in class of <module m> or any superclass'')
   \<and> patch example_env example_store 0 ''missing'' (VFun ''<lambda>'' (Prim 2)) =
        (Inl (AttributeError ''No attribute called missing found in class of <module m> or any superclass''),
         example_store)"
proof -
  have d: "py_dict (example_store 0) ''missing'' = None"
    "py_dict (example_store 1) ''missing'' = None"
    "py_dict (example_store 2) ''missing'' = None"
    by (simp_all add: example_defs)
  have s: "py_str (example_store 0) = ''<module m>''"
    by (simp add: example_defs)
  have h: "\<forall>c \<in> set (0 # get_obj_mro example_store 0). py_dict (example_store c) ''missing'' = None"
    using d by (simp add: example_mro_module)
  show ?thesis
    using resolution_not_found [OF h, of example_env "wrapper_function WPatch"
        "VFun ''<lambda>'' (Prim 2)"] d s
    by (simp add: example_mro_module patch_def)
qed

section \<open>Immediate mode\<close>

text \<open>
  A plain member: found by the resolution, no \<^verbatim>\<open>cached_property\<close>, and without the pair
  \<^verbatim>\<open>__name__\<close>, \<^verbatim>\<open>_invalidate\<close> that marks a function memoized by South. With a callable
  replacement, the patcher installs \<^verbatim>\<open>curry(wrapper_function, replacement, original)\<close>.
  On a member that looks memoized, the replacement goes through \<^verbatim>\<open>memoize\<close> first
  (lines 166-168), and it is the memoized replacement that is curried.
\<close>

lemma immediate_plain:
  assumes "get_dict_attr s t n = Inr orig" "\<not> is_cached_property s orig"
    "\<not> looks_memoized s orig" "py_hasattr s r ''__call__''" "py_getattr s t n = Inr got"
  shows "get_decorator_or_context_object E s t n wfn r =
           (Inr (ContextObject \<lparr>class_or_instance = t, method_name = n,
                   original_function = got,
                   replacement_function = django_curry wfn [r, orig]\<rparr>),
            py_setattr s t n (django_curry wfn [r, orig]))"
proof -
  have "r \<noteq> VNone" using assms(4) by auto
  then show ?thesis
    using assms
    by (simp add: get_decorator_or_context_object_def resolve_plain TemporaryPatcher_init_def)
qed

lemma immediate_memoized:
  assumes "get_dict_attr s t n = Inr orig" "\<not> is_cached_property s orig"
    "looks_memoized s orig" "r \<noteq> VNone" "memoize E s r = Inr mr" "py_hasattr s mr ''__call__''"
    "py_getattr s t n = Inr got"
  shows "get_decorator_or_context_object E s t n wfn r =
           (Inr (ContextObject \<lparr>class_or_instance = t, method_name = n,
                   original_function = got,
                   replacement_function = django_curry wfn [mr, orig]\<rparr>),
            py_setattr s t n (django_curry wfn [mr, orig]))"
  using assms
  by (simp add: get_decorator_or_context_object_def resolve_plain TemporaryPatcher_init_def)

lemma call_curried_wrapper:
  "call (Suc (Suc d)) E (django_curry (wrapper_function w) [r, orig]) args st
     = run_wrapper w (call d E) r orig args st"
  by (simp add: django_curry_def wrapper_function_def)

text \<open>
  The row of \<^verbatim>\<open>patch\<close> in the table of combinators, on a plain member. \<^verbatim>\<open>patch\<close> with a
  callable replacement returns a patcher, and from then on invoking the member is calling the
  replacement with the original function in front of the call arguments: same result, same
  effects. (Two frames, those of \<^verbatim>\<open>_curried\<close> and \<^verbatim>\<open>wrapper_with_patch\<close>, lie between
  the invocation and the call of the replacement.)
\<close>

theorem patch_immediate:
  assumes "get_dict_attr s t n = Inr orig" "\<not> is_cached_property s orig"
    "\<not> looks_memoized s orig" "py_hasattr s r ''__call__''"
  shows "\<exists>p s1 m. patch E s t n r = (Inr (ContextObject p), s1)
           \<and> py_getattr s1 t n = Inr m
           \<and> (\<forall>d args st. call (Suc (Suc d)) E m args st = call d E r (orig # args) st)
           \<and> (\<forall>d args. invoke (Suc (Suc d)) E t n args s1 = call d E r (orig # args) s1)"
proof -
  obtain got where g: "py_getattr s t n = Inr got"
    using py_getattr_found [OF assms(1)] by blast
  show ?thesis
    using immediate_plain [OF assms g, of E "wrapper_function WPatch"]
    by (simp add: patch_def invoke_def call_curried_wrapper wrapper_with_patch_def
          del: call.simps)
qed

theorem patch_immediate_witness:
  "get_dict_attr example_store 0 ''compute'' = Inr (VFun ''compute'' (Prim 0))
   \<and> \<not> is_cached_property example_store (VFun ''compute'' (Prim 0))
   \<and> \<not> looks_memoized example_store (VFun ''compute'' (Prim 0))
   \<and> py_hasattr example_store (VFun ''<lambda>'' (Prim 2)) ''__call__''
   \<and> (\<exists>p s1 m. patch example_env example_store 0 ''compute'' (VFun ''<lambda>'' (Prim 2))
                   = (Inr (ContextObject p), s1)
           \<and> py_getattr s1 0 ''compute'' = Inr m
           \<and> (\<forall>d args st. call (Suc (Suc d)) example_env m args st
                 = call d example_env (VFun ''<lambda>'' (Prim 2))
                     (VFun ''compute'' (Prim 0) # args) st)
           \<and> (\<forall>d args. invoke (Suc (Suc d)) example_env 0 ''compute'' args s1
                 = call d example_env (VFun ''<lambda>'' (Prim 2))
                     (VFun ''compute'' (Prim 0) # args) s1))"
proof -
  have h2: "\<not> is_cached_property example_store (VFun ''compute'' (Prim 0))"
    by (rule function_not_cached_property)
  have h3: "\<not> looks_memoized example_store (VFun ''compute'' (Prim 0))"
    by (rule user_function_not_memoized)
  have h4: "py_hasattr example_store (VFun ''<lambda>'' (Prim 2)) ''__call__''"
    by (rule function_callable)
  show ?thesis
    using patch_immediate [OF example_compute h2 h3 h4, of example_env] example_compute h2 h3 h4
    by simp
qed

text \<open>
  The row of \<^verbatim>\<open>modify_return_value\<close>, on a plain member. \<^verbatim>\<open>modify_return_value\<close> with a
  callable replacement returns a patcher, and from then on invoking the member runs the
  original function on the call arguments and, when it returns, the replacement on the value it
  returned followed by the same call arguments; the result is the replacement's. An exception
  of the original function is passed on and the replacement does not run.
\<close>

theorem modify_return_value_immediate:
  assumes "get_dict_attr s t n = Inr orig" "\<not> is_cached_property s orig"
    "\<not> looks_memoized s orig" "py_hasattr s r ''__call__''"
  shows "\<exists>p s1 m. modify_return_value E s t n r = (Inr (ContextObject p), s1)
           \<and> py_getattr s1 t n = Inr m
           \<and> (\<forall>d args st. call (Suc (Suc d)) E m args st =
                 (case call d E orig args st of
                    (Inl e, st1) \<Rightarrow> (Inl e, st1)
                  | (Inr result, st1) \<Rightarrow> call d E r (result # args) st1))
           \<and> (\<forall>d args. invoke (Suc (Suc d)) E t n args s1 =
                 (case call d E orig args s1 of
                    (Inl e, st1) \<Rightarrow> (Inl e, st1)
                  | (Inr result, st1) \<Rightarrow> call d E r (result # args) st1))"
proof -
  obtain got where g: "py_getattr s t n = Inr got"
    using py_getattr_found [OF assms(1)] by blast
  show ?thesis
    using immediate_plain [OF assms g, of E "wrapper_function WModify"]
    by (simp add: modify_return_value_def invoke_def call_curried_wrapper
          wrapper_with_modify_def del: call.simps)
qed

theorem modify_return_value_immediate_witness:
  "get_dict_attr example_store 3 ''greet'' = Inr (VFun ''greet'' (Prim 1))
   \<and> \<not> is_cached_property example_store (VFun ''greet'' (Prim 1))
   \<and> \<not> looks_memoized example_store (VFun ''greet'' (Prim 1))
   \<and> py_hasattr example_store (VFun ''<lambda>'' (Prim 4)) ''__call__''
   \<and> (\<exists>p s1 m. modify_return_value example_env example_store 3 ''greet''
                   (VFun ''<lambda>'' (Prim 4)) = (Inr (ContextObject p), s1)
           \<and> py_getattr s1 3 ''greet'' = Inr m
           \<and> (\<forall>d args st. call (Suc (Suc d)) example_env m args st =
                 (case call d example_env (VFun ''greet'' (Prim 1)) args st of
                    (Inl e, st1) \<Rightarrow> (Inl e, st1)
                  | (Inr result, st1) \<Rightarrow>
                      call d example_env (VFun ''<lambda>'' (Prim 4)) (result # args) st1))
           \<and> (\<forall>d args. invoke (Suc (Suc d)) example_env 3 ''greet'' args s1 =
                 (case call d example_env (VFun ''greet'' (Prim 1)) args s1 of
                    (Inl e, st1) \<Rightarrow> (Inl e, st1)
                  | (Inr result, st1) \<Rightarrow>
                      call d example_env (VFun ''<lambda>'' (Prim 4)) (result # args) st1)))"
proof -
  have h2: "\<not> is_cached_property example_store (VFun ''greet'' (Prim 1))"
    by (rule function_not_cached_property)
  have h3: "\<not> looks_memoized example_store (VFun ''greet'' (Prim 1))"
    by (rule user_function_not_memoized)
  have h4: "py_hasattr example_store (VFun ''<lambda>'' (Prim 4)) ''__call__''"
    by (rule function_callable)
  show ?thesis
    using modify_return_value_immediate [OF example_greet h2 h3 h4, of example_env]
      example_greet h2 h3 h4
    by simp
qed

text \<open>
  The row of \<^verbatim>\<open>after\<close> in the table of combinators. \<^verbatim>\<open>after\<close> with a callable
  replacement on a plain member returns a patcher, and from then on invoking the member runs
  the original function on the call arguments, then the replacement on the same arguments,
  drops what the replacement returns and returns the result of the original function. An
  exception of either is passed on.
\<close>

theorem after_immediate:
  assumes "get_dict_attr s t n = Inr orig" "\<not> is_cached_property s orig"
    "\<not> looks_memoized s orig" "py_hasattr s r ''__call__''"
  shows "\<exists>p s1 m. after E s t n r = (Inr (ContextObject p), s1)
           \<and> py_getattr s1 t n = Inr m
           \<and> (\<forall>d args st. call (Suc (Suc d)) E m args st =
                 (case call d E orig args st of
                    (Inl e, st1) \<Rightarrow> (Inl e, st1)
                  | (Inr result, st1) \<Rightarrow>
                      (case call d E r args st1 of
                         (Inl e, st2) \<Rightarrow> (Inl e, st2)
                       | (Inr ignored, st2) \<Rightarrow> (Inr result, st2))))"
proof -
  obtain got where g: "py_getattr s t n = Inr got"
    using py_getattr_found [OF assms(1)] by blast
  show ?thesis
    using immediate_plain [OF assms g, of E "wrapper_function WAfter"]
    by (simp add: after_def call_curried_wrapper wrapper_with_after_def del: call.simps)
qed

theorem after_immediate_witness:
  "get_dict_attr example_store 3 ''greet'' = Inr (VFun ''greet'' (Prim 1))
   \<and> \<not> is_cached_property example_store (VFun ''greet'' (Prim 1))
   \<and> \<not> looks_memoized example_store (VFun ''greet'' (Prim 1))
   \<and> py_hasattr example_store (VFun ''log_call'' (Prim 3)) ''__call__''
   \<and> (\<exists>p s1 m. after example_env example_store 3 ''greet'' (VFun ''log_call'' (Prim 3))
                   = (Inr (ContextObject p), s1)
           \<and> py_getattr s1 3 ''greet'' = Inr m
           \<and> (\<forall>d args st. call (Suc (Suc d)) example_env m args st =
                 (case call d example_env (VFun ''greet'' (Prim 1)) args st of
                    (Inl e, st1) \<Rightarrow> (Inl e, st1)
                  | (Inr result, st1) \<Rightarrow>
                      (case call d example_env (VFun ''log_call'' (Prim 3)) args st1 of
                         (Inl e, st2) \<Rightarrow> (Inl e, st2)
                       | (Inr ignored, st2) \<Rightarrow> (Inr result, st2)))))"
proof -
  have h2: "\<not> is_cached_property example_store (VFun ''greet'' (Prim 1))"
    by (rule function_not_cached_property)
  have h3: "\<not> looks_memoized example_store (VFun ''greet'' (Prim 1))"
    by (rule user_function_not_memoized)
  have h4: "py_hasattr example_store (VFun ''log_call'' (Prim 3)) ''__call__''"
    by (rule function_callable)
  show ?thesis
    using after_immediate [OF example_greet h2 h3 h4, of example_env] example_greet h2 h3 h4
    by simp
qed

section \<open>Immediate and deferred mode on a memoized member\<close>

text \<open>
  The store \<^verbatim>\<open>memoized_store\<close>: the class \<^verbatim>\<open>Greeter\<close> with the method \<^verbatim>\<open>title\<close>
  memoized by South, and an instance of it that has nothing cached yet. The first call of the
  memoized method on the instance runs the function and caches the result on the instance
  under \<^verbatim>\<open>_title\<close>.
\<close>

lemma memoized_title_getattr:
  "py_getattr memoized_store 3 ''title'' = Inr memoized_title"
  using memoized_title by (simp add: py_getattr_raw example_kinds)

lemma memoized_receiver:
  "py_dict (memoized_store 6) = Map.empty" "py_kind (memoized_store 6) = KOther"
  "get_obj_mro memoized_store 6 = [3, 2]"
  "py_dict (memoized_store 2) = Map.empty"
  "py_dict (memoized_store 3) = [''title'' \<mapsto> memoized_title]"
  by (simp_all add: get_obj_mro_def example_defs)

lemma patch_memoized_immediate:
  "patch example_env memoized_store 3 ''title'' upper_around_lambda =
     (Inr (ContextObject
        \<lparr>class_or_instance = 3, method_name = ''title'', original_function = memoized_title,
         replacement_function =
           django_curry (wrapper_function WPatch)
             [VFun ''<lambda>'' (Memoized upper_around_lambda), memoized_title]\<rparr>),
      py_setattr memoized_store 3 ''title''
        (django_curry (wrapper_function WPatch)
           [VFun ''<lambda>'' (Memoized upper_around_lambda), memoized_title]))"
  unfolding patch_def
  by (rule immediate_memoized [OF memoized_title function_not_cached_property
        memoized_looks_memoized _ example_memoize_function function_callable
        memoized_title_getattr]) simp

lemma title_first_call:
  assumes "1 < d" "py_dict (s 6) = Map.empty" "py_kind (s 6) = KOther"
    "get_obj_mro s 6 = [3, 2]" "py_dict (s 2) ''_title'' = None" "py_dict (s 3) ''_title'' = None"
  shows "call d example_env memoized_title [VRef 6] s
           = (Inr (VStr ''Hi Sam''), py_setattr s 6 ''_title'' (VStr ''Hi Sam''))"
proof -
  obtain j where d: "d = Suc (Suc j)"
    using assms(1) less_iff_Suc_add [of 1 d] by auto
  show ?thesis
    using assms(2-)
    unfolding d
    by (simp add: example_env_def example_memoized_call_def py_name_def memoized_method_def
          py_hasattr_def example_prim_def title_fn_def read_cached_def)
qed

lemma memoized_title_resolve:
  "resolve memoized_store 3 ''title'' = Inr (3, memoized_title, ''title'')"
  using memoized_title by (simp add: resolve_plain function_not_cached_property)

lemma receiver_after_patch:
  "py_dict (py_setattr memoized_store 3 ''title'' v 6) = Map.empty"
  "py_kind (py_setattr memoized_store 3 ''title'' v 6) = KOther"
  "get_obj_mro (py_setattr memoized_store 3 ''title'' v) 6 = [3, 2]"
  "py_dict (py_setattr memoized_store 3 ''title'' v 2) k = None"
  "py_dict (py_setattr memoized_store 3 ''title'' v 3) ''_title'' = None"
  "py_dict (py_setattr memoized_store 3 ''title'' v 3) ''__curried'' = None"
  "py_kind (py_setattr memoized_store 3 ''title'' v 3) = KType"
  by (simp_all add: memoized_receiver example_kinds)
     (simp_all add: py_setattr_def memoized_receiver)

lemma curried_name: "py_name s (django_curry f stored) = Some (VStr ''_curried'')"
  by (simp add: py_name_def django_curry_def)

lemma invoke_on_instance:
  assumes "py_kind (s obj) = KOther" "py_dict (s obj) n = None"
    "get_obj_mro s obj = cls # rest" "py_kind (s cls) = KType"
    "py_dict (s cls) n = Some f" "bind_method f obj = VFun nm (BoundMethod f (VRef obj))"
  shows "invoke (Suc d) E obj n args s = invoke d E cls n (VRef obj # args) s"
  using assms by (simp add: invoke_def py_getattr_def)

lemma title_on_instance:
  assumes "bind_method f 6 = VFun nm (BoundMethod f (VRef 6))"
  shows "invoke (Suc d) E 6 ''title'' args (py_setattr memoized_store 3 ''title'' f)
       = invoke d E 3 ''title'' (VRef 6 # args) (py_setattr memoized_store 3 ''title'' f)"
  by (rule invoke_on_instance [where rest = "[2]" and nm = nm and f = f and cls = 3])
     (simp_all add: memoized_receiver example_kinds receiver_after_patch assms)

lemma modify_memoized_immediate:
  "modify_return_value example_env memoized_store 3 ''title'' upper_result_lambda =
     (Inr (ContextObject
        \<lparr>class_or_instance = 3, method_name = ''title'', original_function = memoized_title,
         replacement_function =
           django_curry (wrapper_function WModify)
             [VFun ''<lambda>'' (Memoized upper_result_lambda), memoized_title]\<rparr>),
      py_setattr memoized_store 3 ''title''
        (django_curry (wrapper_function WModify)
           [VFun ''<lambda>'' (Memoized upper_result_lambda), memoized_title]))"
  unfolding modify_return_value_def
  by (rule immediate_memoized [OF memoized_title function_not_cached_property
        memoized_looks_memoized _ example_memoize_function function_callable
        memoized_title_getattr]) simp

text \<open>
  Claim C1 on a member South has memoized. The class \<^verbatim>\<open>Greeter\<close> (object 3) has the method
  \<^verbatim>\<open>title(self)\<close>, memoized by South, which returns \<^verbatim>\<open>"Hi Sam"\<close>; the receiver is the
  instance of \<^verbatim>\<open>Greeter\<close> (object 6); the replacement is
  \<^verbatim>\<open>lambda orig, self: orig(self).upper()\<close>. Both the member and the replacement are
  callable. In immediate mode \<^verbatim>\<open>patch\<close> memoizes the bare replacement (lines 166-168) and
  curries the memoized replacement with the original (lines 172-175): the memoized function
  takes the receiver alone, it is called with the original and the receiver, and
  \<^verbatim>\<open>Greeter().title()\<close> raises \<^verbatim>\<open>TypeError\<close>, the store unchanged, where the replacement
  called with the original in front of the call arguments returns \<^verbatim>\<open>"HI SAM"\<close>. In deferred
  mode (lines 133-138) the replacement is curried first and the composite is memoized: the same
  replacement on the same member makes \<^verbatim>\<open>Greeter().title()\<close> return \<^verbatim>\<open>"HI SAM"\<close>. The
  invocation is stated twice, through the class with the receiver as the first argument and
  through the instance.
\<close>

theorem patch_memoized_member_raises:
  "get_dict_attr memoized_store 3 ''title'' = Inr memoized_title
   \<and> py_hasattr memoized_store memoized_title ''__call__''
   \<and> py_hasattr memoized_store upper_around_lambda ''__call__''
   \<and> patch example_env memoized_store 3 ''title'' upper_around_lambda
       = (Inr (ContextObject
            \<lparr>class_or_instance = 3, method_name = ''title'',
             original_function = memoized_title,
             replacement_function =
               django_curry (wrapper_function WPatch)
                 [VFun ''<lambda>'' (Memoized upper_around_lambda), memoized_title]\<rparr>),
          py_setattr memoized_store 3 ''title''
            (django_curry (wrapper_function WPatch)
               [VFun ''<lambda>'' (Memoized upper_around_lambda), memoized_title]))
   \<and> invoke 8 example_env 3 ''title'' [VRef 6]
         (py_setattr memoized_store 3 ''title''
            (django_curry (wrapper_function WPatch)
               [VFun ''<lambda>'' (Memoized upper_around_lambda), memoized_title]))
       = (Inl (TypeError ''method() takes exactly 1 argument''),
          py_setattr memoized_store 3 ''title''
            (django_curry (wrapper_function WPatch)
               [VFun ''<lambda>'' (Memoized upper_around_lambda), memoized_title]))
   \<and> call 8 example_env upper_around_lambda [memoized_title, VRef 6]
         (py_setattr memoized_store 3 ''title''
            (django_curry (wrapper_function WPatch)
               [VFun ''<lambda>'' (Memoized upper_around_lambda), memoized_title]))
       = (Inr (VStr ''HI SAM''),
          py_setattr
            (py_setattr memoized_store 3 ''title''
               (django_curry (wrapper_function WPatch)
                  [VFun ''<lambda>'' (Memoized upper_around_lambda), memoized_title]))
            6 ''_title'' (VStr ''Hi Sam''))
   \<and> patch example_env memoized_store 3 ''title'' VNone
       = (Inr (Decorator
            \<lparr>fd_class_or_instance = 3, fd_method_name = ''title'',
             fd_wrapper_function = wrapper_function WPatch,
             fd_original_function = memoized_title,
             fd_memoize_the_replacement = True\<rparr>),
          memoized_store)
   \<and> final_decorator_apply example_env
         \<lparr>fd_class_or_instance = 3, fd_method_name = ''title'',
          fd_wrapper_function = wrapper_function WPatch,
          fd_original_function = memoized_title,
          fd_memoize_the_replacement = True\<rparr>
         upper_around_lambda memoized_store
       = (Inr upper_around_lambda,
          py_setattr memoized_store 3 ''title''
            (VFun ''_curried''
               (Memoized (django_curry (wrapper_function WPatch)
                            [upper_around_lambda, memoized_title]))))
   \<and> invoke 8 example_env 3 ''title'' [VRef 6]
         (py_setattr memoized_store 3 ''title''
            (VFun ''_curried''
               (Memoized (django_curry (wrapper_function WPatch)
                            [upper_around_lambda, memoized_title]))))
       = (Inr (VStr ''HI SAM''),
          py_setattr
            (py_setattr
               (py_setattr memoized_store 3 ''title''
                  (VFun ''_curried''
                     (Memoized (django_curry (wrapper_function WPatch)
                                  [upper_around_lambda, memoized_title]))))
               6 ''_title'' (VStr ''Hi Sam''))
            6 ''__curried'' (VStr ''HI SAM''))
   \<and> invoke (Suc 8) example_env 6 ''title'' []
         (py_setattr memoized_store 3 ''title''
            (django_curry (wrapper_function WPatch)
               [VFun ''<lambda>'' (Memoized upper_around_lambda), memoized_title]))
       = (Inl (TypeError ''method() takes exactly 1 argument''),
          py_setattr memoized_store 3 ''title''
            (django_curry (wrapper_function WPatch)
               [VFun ''<lambda>'' (Memoized upper_around_lambda), memoized_title]))
   \<and> invoke (Suc 8) example_env 6 ''title'' []
         (py_setattr memoized_store 3 ''title''
            (VFun ''_curried''
               (Memoized (django_curry (wrapper_function WPatch)
                            [upper_around_lambda, memoized_title]))))
       = (Inr (VStr ''HI SAM''),
          py_setattr
            (py_setattr
               (py_setattr memoized_store 3 ''title''
                  (VFun ''_curried''
                     (Memoized (django_curry (wrapper_function WPatch)
                                  [upper_around_lambda, memoized_title]))))
               6 ''_title'' (VStr ''Hi Sam''))
            6 ''__curried'' (VStr ''HI SAM''))"
proof -
  let ?mi = "django_curry (wrapper_function WPatch)
               [VFun ''<lambda>'' (Memoized upper_around_lambda), memoized_title]"
  let ?md = "VFun ''_curried''
               (Memoized (django_curry (wrapper_function WPatch)
                            [upper_around_lambda, memoized_title]))"
  let ?s1 = "py_setattr memoized_store 3 ''title'' ?mi"
  let ?s2 = "py_setattr memoized_store 3 ''title'' ?md"
  have c: "py_hasattr memoized_store memoized_title ''__call__''"
    "py_hasattr memoized_store upper_around_lambda ''__call__''"
    by (rule function_callable)+
  have immediate: "invoke 8 example_env 3 ''title'' [VRef 6] ?s1
       = (Inl (TypeError ''method() takes exactly 1 argument''), ?s1)"
    by (simp add: invoke_def call_numeral django_curry_def wrapper_function_def
          wrapper_with_patch_def example_env_def example_memoized_call_def)
  have first: "call 7 example_env memoized_title [VRef 6] ?s1
       = (Inr (VStr ''Hi Sam''), py_setattr ?s1 6 ''_title'' (VStr ''Hi Sam''))"
    by (rule title_first_call) (simp_all add: receiver_after_patch memoized_receiver)
  have direct: "call 8 example_env upper_around_lambda [memoized_title, VRef 6] ?s1
       = (Inr (VStr ''HI SAM''), py_setattr ?s1 6 ''_title'' (VStr ''Hi Sam''))"
    by (subst call_numeral)
       (simp add: example_env_def example_prim_def upper_around_def upper_char_def
          first [unfolded example_env_def])
  have deferred: "patch example_env memoized_store 3 ''title'' VNone
       = (Inr (Decorator
            \<lparr>fd_class_or_instance = 3, fd_method_name = ''title'',
             fd_wrapper_function = wrapper_function WPatch,
             fd_original_function = memoized_title,
             fd_memoize_the_replacement = True\<rparr>),
          memoized_store)"
    by (simp add: patch_def get_decorator_or_context_object_def memoized_title_resolve
          memoized_looks_memoized)
  have applied: "final_decorator_apply example_env
         \<lparr>fd_class_or_instance = 3, fd_method_name = ''title'',
          fd_wrapper_function = wrapper_function WPatch,
          fd_original_function = memoized_title,
          fd_memoize_the_replacement = True\<rparr>
         upper_around_lambda memoized_store
       = (Inr upper_around_lambda, ?s2)"
    by (simp add: final_decorator_apply_def Let_def django_curry_def example_memoize_function
          example_kinds)
  have inner: "call 4 example_env memoized_title [VRef 6] ?s2
       = (Inr (VStr ''Hi Sam''), py_setattr ?s2 6 ''_title'' (VStr ''Hi Sam''))"
    by (rule title_first_call) (simp_all add: receiver_after_patch memoized_receiver)
  have fresh: "\<not> py_hasattr ?s2 (VRef 6) ''__curried''"
    by (simp add: py_hasattr_def receiver_after_patch memoized_receiver)
  have run_r: "call 5 example_env upper_around_lambda [memoized_title, VRef 6] ?s2
       = (Inr (VStr ''HI SAM''), py_setattr ?s2 6 ''_title'' (VStr ''Hi Sam''))"
    by (subst call_numeral)
       (simp add: example_env_def example_prim_def upper_around_def upper_char_def
          inner [unfolded example_env_def])
  have run_curried: "call 7 example_env
         (django_curry (wrapper_function WPatch) [upper_around_lambda, memoized_title])
         [VRef 6] ?s2
       = (Inr (VStr ''HI SAM''), py_setattr ?s2 6 ''_title'' (VStr ''Hi Sam''))"
    using call_curried_wrapper [of 5 example_env WPatch upper_around_lambda memoized_title
        "[VRef 6]" ?s2] run_r
    by (simp add: wrapper_with_patch_def del: call.simps)
  have run_member: "call 8 example_env ?md [VRef 6] ?s2
       = (Inr (VStr ''HI SAM''),
          py_setattr (py_setattr ?s2 6 ''_title'' (VStr ''Hi Sam'')) 6 ''__curried''
            (VStr ''HI SAM''))"
    using fresh
    by (subst call_numeral)
       (simp add: example_env_def example_memoized_call_def curried_name memoized_method_def
          read_cached_def py_getattr_def receiver_after_patch memoized_receiver
          run_curried [unfolded example_env_def])
  have deferred_run: "invoke 8 example_env 3 ''title'' [VRef 6] ?s2
       = (Inr (VStr ''HI SAM''),
          py_setattr (py_setattr ?s2 6 ''_title'' (VStr ''Hi Sam'')) 6 ''__curried''
            (VStr ''HI SAM''))"
    using run_member by (simp add: invoke_def del: call.simps)
  have instance_immediate: "invoke (Suc 8) example_env 6 ''title'' [] ?s1
       = (Inl (TypeError ''method() takes exactly 1 argument''), ?s1)"
    using immediate
    by (subst title_on_instance [where nm = "''_curried''"])
       (simp_all add: bind_method_def django_curry_def del: call.simps)
  have instance_deferred: "invoke (Suc 8) example_env 6 ''title'' [] ?s2
       = (Inr (VStr ''HI SAM''),
          py_setattr (py_setattr ?s2 6 ''_title'' (VStr ''Hi Sam'')) 6 ''__curried''
            (VStr ''HI SAM''))"
    using deferred_run
    by (subst title_on_instance [where nm = "''_curried''"])
       (simp_all add: bind_method_def del: call.simps)
  show ?thesis
    by (simp only: memoized_title c patch_memoized_immediate immediate direct deferred applied
          deferred_run instance_immediate instance_deferred simp_thms)
qed

text \<open>
  Claim C6 on a member South has memoized: the same class and receiver, the replacement
  \<^verbatim>\<open>lambda result, *args: result.upper()\<close>. In immediate mode
  \<^verbatim>\<open>modify_return_value\<close> memoizes the bare replacement (lines 166-168) before it is
  curried: invoking the member runs the original, which caches \<^verbatim>\<open>"Hi Sam"\<close> on the
  receiver, and then calls the memoized replacement with the result and the receiver, which
  raises \<^verbatim>\<open>TypeError\<close>; the original on the call arguments returns \<^verbatim>\<open>"Hi Sam"\<close> and the
  replacement on that result and the call arguments returns \<^verbatim>\<open>"HI SAM"\<close>. In deferred
  mode (lines 133-138) the composite is memoized and \<^verbatim>\<open>Greeter().title()\<close> returns
  \<^verbatim>\<open>"HI SAM"\<close>.
\<close>

theorem modify_memoized_member_raises:
  "get_dict_attr memoized_store 3 ''title'' = Inr memoized_title
   \<and> py_hasattr memoized_store memoized_title ''__call__''
   \<and> py_hasattr memoized_store upper_result_lambda ''__call__''
   \<and> modify_return_value example_env memoized_store 3 ''title'' upper_result_lambda
       = (Inr (ContextObject
            \<lparr>class_or_instance = 3, method_name = ''title'',
             original_function = memoized_title,
             replacement_function =
               django_curry (wrapper_function WModify)
                 [VFun ''<lambda>'' (Memoized upper_result_lambda), memoized_title]\<rparr>),
          py_setattr memoized_store 3 ''title''
            (django_curry (wrapper_function WModify)
               [VFun ''<lambda>'' (Memoized upper_result_lambda), memoized_title]))
   \<and> invoke 8 example_env 3 ''title'' [VRef 6]
         (py_setattr memoized_store 3 ''title''
            (django_curry (wrapper_function WModify)
               [VFun ''<lambda>'' (Memoized upper_result_lambda), memoized_title]))
       = (Inl (TypeError ''method() takes exactly 1 argument''),
          py_setattr
            (py_setattr memoized_store 3 ''title''
               (django_curry (wrapper_function WModify)
                  [VFun ''<lambda>'' (Memoized upper_result_lambda), memoized_title]))
            6 ''_title'' (VStr ''Hi Sam''))
   \<and> call 8 example_env memoized_title [VRef 6]
         (py_setattr memoized_store 3 ''title''
            (django_curry (wrapper_function WModify)
               [VFun ''<lambda>'' (Memoized upper_result_lambda), memoized_title]))
       = (Inr (VStr ''Hi Sam''),
          py_setattr
            (py_setattr memoized_store 3 ''title''
               (django_curry (wrapper_function WModify)
                  [VFun ''<lambda>'' (Memoized upper_result_lambda), memoized_title]))
            6 ''_title'' (VStr ''Hi Sam''))
   \<and> call 8 example_env upper_result_lambda [VStr ''Hi Sam'', VRef 6]
         (py_setattr
            (py_setattr memoized_store 3 ''title''
               (django_curry (wrapper_function WModify)
                  [VFun ''<lambda>'' (Memoized upper_result_lambda), memoized_title]))
            6 ''_title'' (VStr ''Hi Sam''))
       = (Inr (VStr ''HI SAM''),
          py_setattr
            (py_setattr memoized_store 3 ''title''
               (django_curry (wrapper_function WModify)
                  [VFun ''<lambda>'' (Memoized upper_result_lambda), memoized_title]))
            6 ''_title'' (VStr ''Hi Sam''))
   \<and> modify_return_value example_env memoized_store 3 ''title'' VNone
       = (Inr (Decorator
            \<lparr>fd_class_or_instance = 3, fd_method_name = ''title'',
             fd_wrapper_function = wrapper_function WModify,
             fd_original_function = memoized_title,
             fd_memoize_the_replacement = True\<rparr>),
          memoized_store)
   \<and> final_decorator_apply example_env
         \<lparr>fd_class_or_instance = 3, fd_method_name = ''title'',
          fd_wrapper_function = wrapper_function WModify,
          fd_original_function = memoized_title,
          fd_memoize_the_replacement = True\<rparr>
         upper_result_lambda memoized_store
       = (Inr upper_result_lambda,
          py_setattr memoized_store 3 ''title''
            (VFun ''_curried''
               (Memoized (django_curry (wrapper_function WModify)
                            [upper_result_lambda, memoized_title]))))
   \<and> invoke 8 example_env 3 ''title'' [VRef 6]
         (py_setattr memoized_store 3 ''title''
            (VFun ''_curried''
               (Memoized (django_curry (wrapper_function WModify)
                            [upper_result_lambda, memoized_title]))))
       = (Inr (VStr ''HI SAM''),
          py_setattr
            (py_setattr
               (py_setattr memoized_store 3 ''title''
                  (VFun ''_curried''
                     (Memoized (django_curry (wrapper_function WModify)
                                  [upper_result_lambda, memoized_title]))))
               6 ''_title'' (VStr ''Hi Sam''))
            6 ''__curried'' (VStr ''HI SAM''))
   \<and> invoke (Suc 8) example_env 6 ''title'' []
         (py_setattr memoized_store 3 ''title''
            (django_curry (wrapper_function WModify)
               [VFun ''<lambda>'' (Memoized upper_result_lambda), memoized_title]))
       = (Inl (TypeError ''method() takes exactly 1 argument''),
          py_setattr
            (py_setattr memoized_store 3 ''title''
               (django_curry (wrapper_function WModify)
                  [VFun ''<lambda>'' (Memoized upper_result_lambda), memoized_title]))
            6 ''_title'' (VStr ''Hi Sam''))
   \<and> invoke (Suc 8) example_env 6 ''title'' []
         (py_setattr memoized_store 3 ''title''
            (VFun ''_curried''
               (Memoized (django_curry (wrapper_function WModify)
                            [upper_result_lambda, memoized_title]))))
       = (Inr (VStr ''HI SAM''),
          py_setattr
            (py_setattr
               (py_setattr memoized_store 3 ''title''
                  (VFun ''_curried''
                     (Memoized (django_curry (wrapper_function WModify)
                                  [upper_result_lambda, memoized_title]))))
               6 ''_title'' (VStr ''Hi Sam''))
            6 ''__curried'' (VStr ''HI SAM''))"
proof -
  let ?mr = "VFun ''<lambda>'' (Memoized upper_result_lambda)"
  let ?mi = "django_curry (wrapper_function WModify) [?mr, memoized_title]"
  let ?c = "django_curry (wrapper_function WModify) [upper_result_lambda, memoized_title]"
  let ?md = "VFun ''_curried'' (Memoized ?c)"
  let ?s1 = "py_setattr memoized_store 3 ''title'' ?mi"
  let ?s2 = "py_setattr memoized_store 3 ''title'' ?md"
  have c: "py_hasattr memoized_store memoized_title ''__call__''"
    "py_hasattr memoized_store upper_result_lambda ''__call__''"
    by (rule function_callable)+
  have original: "\<And>d v. 1 < d \<Longrightarrow>
      call d example_env memoized_title [VRef 6] (py_setattr memoized_store 3 ''title'' v)
       = (Inr (VStr ''Hi Sam''),
          py_setattr (py_setattr memoized_store 3 ''title'' v) 6 ''_title'' (VStr ''Hi Sam''))"
    by (rule title_first_call) (simp_all add: receiver_after_patch memoized_receiver)
  have upper: "\<And>d st. call (Suc d) example_env upper_result_lambda [VStr ''Hi Sam'', VRef 6] st
       = (Inr (VStr ''HI SAM''), st)"
    by (simp add: example_env_def example_prim_def upper_result_def upper_char_def)
  have too_many: "\<And>d st. call (Suc d) example_env ?mr [VStr ''Hi Sam'', VRef 6] st
       = (Inl (TypeError ''method() takes exactly 1 argument''), st)"
    by (simp add: example_env_def example_memoized_call_def)
  have immediate_call: "call 8 example_env ?mi [VRef 6] ?s1
       = (Inl (TypeError ''method() takes exactly 1 argument''),
          py_setattr ?s1 6 ''_title'' (VStr ''Hi Sam''))"
    using call_curried_wrapper [of 6 example_env WModify ?mr memoized_title "[VRef 6]" ?s1]
      original [of 6] too_many [of 5]
    by (simp add: wrapper_with_modify_def del: call.simps)
  have immediate: "invoke 8 example_env 3 ''title'' [VRef 6] ?s1
       = (Inl (TypeError ''method() takes exactly 1 argument''),
          py_setattr ?s1 6 ''_title'' (VStr ''Hi Sam''))"
    using immediate_call by (simp add: invoke_def del: call.simps)
  have claim_original: "call 8 example_env memoized_title [VRef 6] ?s1
       = (Inr (VStr ''Hi Sam''), py_setattr ?s1 6 ''_title'' (VStr ''Hi Sam''))"
    by (rule original) simp
  have claim_replacement: "call 8 example_env upper_result_lambda [VStr ''Hi Sam'', VRef 6]
         (py_setattr ?s1 6 ''_title'' (VStr ''Hi Sam''))
       = (Inr (VStr ''HI SAM''), py_setattr ?s1 6 ''_title'' (VStr ''Hi Sam''))"
    using upper [of 7] by simp
  have deferred: "modify_return_value example_env memoized_store 3 ''title'' VNone
       = (Inr (Decorator
            \<lparr>fd_class_or_instance = 3, fd_method_name = ''title'',
             fd_wrapper_function = wrapper_function WModify,
             fd_original_function = memoized_title,
             fd_memoize_the_replacement = True\<rparr>),
          memoized_store)"
    by (simp add: modify_return_value_def get_decorator_or_context_object_def
          memoized_title_resolve memoized_looks_memoized)
  have applied: "final_decorator_apply example_env
         \<lparr>fd_class_or_instance = 3, fd_method_name = ''title'',
          fd_wrapper_function = wrapper_function WModify,
          fd_original_function = memoized_title,
          fd_memoize_the_replacement = True\<rparr>
         upper_result_lambda memoized_store
       = (Inr upper_result_lambda, ?s2)"
    by (simp add: final_decorator_apply_def Let_def django_curry_def example_memoize_function
          example_kinds)
  have run_curried: "call 7 example_env ?c [VRef 6] ?s2
       = (Inr (VStr ''HI SAM''), py_setattr ?s2 6 ''_title'' (VStr ''Hi Sam''))"
    using call_curried_wrapper [of 5 example_env WModify upper_result_lambda memoized_title
        "[VRef 6]" ?s2] original [of 5] upper [of 4]
    by (simp add: wrapper_with_modify_def del: call.simps)
  have fresh: "\<not> py_hasattr ?s2 (VRef 6) ''__curried''"
    by (simp add: py_hasattr_def receiver_after_patch memoized_receiver)
  have run_member: "call 8 example_env ?md [VRef 6] ?s2
       = (Inr (VStr ''HI SAM''),
          py_setattr (py_setattr ?s2 6 ''_title'' (VStr ''Hi Sam'')) 6 ''__curried''
            (VStr ''HI SAM''))"
    using fresh
    by (subst call_numeral)
       (simp add: example_env_def example_memoized_call_def curried_name memoized_method_def
          read_cached_def py_getattr_def receiver_after_patch memoized_receiver
          run_curried [unfolded example_env_def])
  have deferred_run: "invoke 8 example_env 3 ''title'' [VRef 6] ?s2
       = (Inr (VStr ''HI SAM''),
          py_setattr (py_setattr ?s2 6 ''_title'' (VStr ''Hi Sam'')) 6 ''__curried''
            (VStr ''HI SAM''))"
    using run_member by (simp add: invoke_def del: call.simps)
  have instance_immediate: "invoke (Suc 8) example_env 6 ''title'' [] ?s1
       = (Inl (TypeError ''method() takes exactly 1 argument''),
          py_setattr ?s1 6 ''_title'' (VStr ''Hi Sam''))"
    using immediate
    by (subst title_on_instance [where nm = "''_curried''"])
       (simp_all add: bind_method_def django_curry_def del: call.simps)
  have instance_deferred: "invoke (Suc 8) example_env 6 ''title'' [] ?s2
       = (Inr (VStr ''HI SAM''),
          py_setattr (py_setattr ?s2 6 ''_title'' (VStr ''Hi Sam'')) 6 ''__curried''
            (VStr ''HI SAM''))"
    using deferred_run
    by (subst title_on_instance [where nm = "''_curried''"])
       (simp_all add: bind_method_def del: call.simps)
  show ?thesis
    by (simp only: memoized_title c modify_memoized_immediate immediate claim_original
          claim_replacement deferred applied deferred_run instance_immediate
          instance_deferred simp_thms)
qed

section \<open>Scoped guards\<close>

text \<open>
  Whatever the member, the patcher that \<^verbatim>\<open>get_decorator_or_context_object\<close> returns stores
  the member as it was read before the patch, and leaving its scope, on any path of the block,
  makes the member that stored value again. When the entry was in the patched object's own
  namespace, the store is the one before the patch.
\<close>

lemma guard_restores_member:
  assumes "get_decorator_or_context_object E s t n wfn r = (Inr (ContextObject p), s1)"
  shows "py_getattr s (class_or_instance p) (method_name p) = Inr (original_function p)
       \<and> py_getattr (snd (with_stmt p body s1)) (class_or_instance p) (method_name p)
           = Inr (original_function p)"
proof -
  have ex: "py_getattr (snd (with_stmt p body s1)) (class_or_instance p) (method_name p)
           = Inr (original_function p)"
    by (simp add: with_stmt_def TemporaryPatcher_enter_def TemporaryPatcher_exit_def
        split: prod.splits sum.splits)
  have "py_getattr s (class_or_instance p) (method_name p) = Inr (original_function p)"
    using assms
    by (auto simp: get_decorator_or_context_object_def TemporaryPatcher_init_def Let_def
        split: sum.splits if_splits prod.splits)
  with ex show ?thesis by simp
qed

lemma guard_restores_store:
  assumes "get_decorator_or_context_object E s t n wfn r = (Inr (ContextObject p), s1)"
    and "py_dict (s (class_or_instance p)) (method_name p) = Some (original_function p)"
  shows "snd (TemporaryPatcher_exit p s1) = s"
  using assms
  by (auto simp: get_decorator_or_context_object_def TemporaryPatcher_init_def Let_def
        TemporaryPatcher_exit_def py_setattr_stored_value
        split: sum.splits if_splits prod.splits)

text \<open>
  The round trip of the patchers of \<^verbatim>\<open>get_decorator_or_context_object\<close>, in one
  statement: the stored original function is the member as it was before the patch; after the
  \<^verbatim>\<open>with\<close> block, whatever the block did, the member is that function again; and when the
  entry was the patched object's own, leaving the scope gives back the store of before.
\<close>

theorem guard_round_trip:
  assumes "get_decorator_or_context_object E s t n wfn r = (Inr (ContextObject p), s1)"
  shows "py_getattr s (class_or_instance p) (method_name p) = Inr (original_function p)
       \<and> (\<forall>body. py_getattr (snd (with_stmt p body s1)) (class_or_instance p) (method_name p)
                    = Inr (original_function p))
       \<and> (py_dict (s (class_or_instance p)) (method_name p) = Some (original_function p)
            \<longrightarrow> snd (TemporaryPatcher_exit p s1) = s)"
  using guard_restores_member [OF assms] guard_restores_store [OF assms] by simp

theorem guard_round_trip_witness:
  "get_decorator_or_context_object example_env example_store 0 ''compute''
       (wrapper_function WPatch) (VFun ''<lambda>'' (Prim 2))
     = (Inr (ContextObject
          \<lparr>class_or_instance = 0, method_name = ''compute'',
           original_function = VFun ''compute'' (Prim 0),
           replacement_function =
             django_curry (wrapper_function WPatch)
               [VFun ''<lambda>'' (Prim 2), VFun ''compute'' (Prim 0)]\<rparr>),
        py_setattr example_store 0 ''compute''
          (django_curry (wrapper_function WPatch)
             [VFun ''<lambda>'' (Prim 2), VFun ''compute'' (Prim 0)]))
   \<and> py_dict (example_store 0) ''compute'' = Some (VFun ''compute'' (Prim 0))
   \<and> py_getattr example_store 0 ''compute'' = Inr (VFun ''compute'' (Prim 0))
   \<and> py_getattr
         (snd (with_stmt
            \<lparr>class_or_instance = 0, method_name = ''compute'',
             original_function = VFun ''compute'' (Prim 0),
             replacement_function =
               django_curry (wrapper_function WPatch)
                 [VFun ''<lambda>'' (Prim 2), VFun ''compute'' (Prim 0)]\<rparr>
            (invoke 8 example_env 0 ''compute'' [VInt 5])
            (py_setattr example_store 0 ''compute''
               (django_curry (wrapper_function WPatch)
                  [VFun ''<lambda>'' (Prim 2), VFun ''compute'' (Prim 0)]))))
         0 ''compute'' = Inr (VFun ''compute'' (Prim 0))
   \<and> snd (TemporaryPatcher_exit
            \<lparr>class_or_instance = 0, method_name = ''compute'',
             original_function = VFun ''compute'' (Prim 0),
             replacement_function =
               django_curry (wrapper_function WPatch)
                 [VFun ''<lambda>'' (Prim 2), VFun ''compute'' (Prim 0)]\<rparr>
            (py_setattr example_store 0 ''compute''
               (django_curry (wrapper_function WPatch)
                  [VFun ''<lambda>'' (Prim 2), VFun ''compute'' (Prim 0)])))
       = example_store"
proof -
  let ?m = "django_curry (wrapper_function WPatch)
              [VFun ''<lambda>'' (Prim 2), VFun ''compute'' (Prim 0)]"
  let ?p = "\<lparr>class_or_instance = 0, method_name = ''compute'',
             original_function = VFun ''compute'' (Prim 0), replacement_function = ?m\<rparr>"
  let ?s1 = "py_setattr example_store 0 ''compute'' ?m"
  have h: "get_decorator_or_context_object example_env example_store 0 ''compute''
             (wrapper_function WPatch) (VFun ''<lambda>'' (Prim 2)) = (Inr (ContextObject ?p), ?s1)"
    by (rule immediate_plain [OF example_compute function_not_cached_property
          user_function_not_memoized function_callable example_compute_getattr])
  show ?thesis
    using guard_round_trip [OF h] h example_compute_own
    by simp
qed

text \<open>
  Two patches through the combinators, one after the other on the same plain member: the
  second patcher stores the curried replacement of the first.
\<close>

lemma second_combinator_captures_first:
  assumes "get_dict_attr s t n = Inr orig" "\<not> is_cached_property s orig"
    "\<not> looks_memoized s orig" "py_hasattr s r1 ''__call__''"
    "py_hasattr (py_setattr s t n (django_curry w1 [r1, orig])) r2 ''__call__''"
  shows "\<exists>p1 s1 p2 s2.
           get_decorator_or_context_object E s t n w1 r1 = (Inr (ContextObject p1), s1)
         \<and> get_decorator_or_context_object E s1 t n w2 r2 = (Inr (ContextObject p2), s2)
         \<and> py_getattr s t n = Inr (original_function p1)
         \<and> original_function p2 = replacement_function p1
         \<and> snd (TemporaryPatcher_exit p2 s2) = s1
         \<and> py_getattr (snd (TemporaryPatcher_exit p2 s2)) t n = Inr (replacement_function p1)"
proof -
  let ?m1 = "django_curry w1 [r1, orig]"
  let ?s1 = "py_setattr s t n ?m1"
  obtain got where got: "py_getattr s t n = Inr got"
    using py_getattr_found [OF assms(1)] by blast
  have first: "get_decorator_or_context_object E s t n w1 r1 =
           (Inr (ContextObject \<lparr>class_or_instance = t, method_name = n,
                   original_function = got, replacement_function = ?m1\<rparr>), ?s1)"
    using assms(1-4) got by (rule immediate_plain)
  have g: "get_dict_attr ?s1 t n = Inr ?m1" by simp
  have g': "py_getattr ?s1 t n = Inr ?m1" by simp
  have second: "get_decorator_or_context_object E ?s1 t n w2 r2 =
           (Inr (ContextObject \<lparr>class_or_instance = t, method_name = n,
                   original_function = ?m1,
                   replacement_function = django_curry w2 [r2, ?m1]\<rparr>),
            py_setattr ?s1 t n (django_curry w2 [r2, ?m1]))"
    using g curried_not_cached_property_nor_memoized assms(5) g' by (rule immediate_plain)
  show ?thesis
    using first second got by (simp add: TemporaryPatcher_exit_def)
qed

text \<open>
  The scenarios of the specification: \<^verbatim>\<open>m.compute(5)\<close> is 11 inside the scope of
  \<^verbatim>\<open>patch(m, 'compute', lambda orig, x: orig(x) + 1)\<close> and 10 after it, in the store of
  before; \<^verbatim>\<open>Greeter().greet("Sam")\<close> is \<^verbatim>\<open>"HI SAM"\<close> under \<^verbatim>\<open>modify_return_value\<close>.
\<close>

lemma scenario_patch_compute:
  "\<exists>p s1. patch example_env example_store 0 ''compute'' (VFun ''<lambda>'' (Prim 2))
              = (Inr (ContextObject p), s1)
     \<and> with_stmt p (invoke 8 example_env 0 ''compute'' [VInt 5]) s1
          = (Inr (VInt 11), example_store)
     \<and> invoke 8 example_env 0 ''compute'' [VInt 5] example_store
          = (Inr (VInt 10), example_store)"
proof -
  let ?m = "django_curry (wrapper_function WPatch)
              [VFun ''<lambda>'' (Prim 2), VFun ''compute'' (Prim 0)]"
  let ?p = "\<lparr>class_or_instance = 0, method_name = ''compute'',
             original_function = VFun ''compute'' (Prim 0), replacement_function = ?m\<rparr>"
  let ?s1 = "py_setattr example_store 0 ''compute'' ?m"
  have inst: "patch example_env example_store 0 ''compute'' (VFun ''<lambda>'' (Prim 2))
                = (Inr (ContextObject ?p), ?s1)"
    unfolding patch_def
    by (rule immediate_plain [OF example_compute function_not_cached_property
          user_function_not_memoized function_callable example_compute_getattr])
  have inside: "invoke 8 example_env 0 ''compute'' [VInt 5] ?s1 = (Inr (VInt 11), ?s1)"
    by (simp add: invoke_def eval_nat_numeral django_curry_def wrapper_function_def
          wrapper_with_patch_def example_env_def example_prim_def add_one_around_def
          compute_fn_def)
  have restored: "py_setattr example_store 0 ''compute'' (VFun ''compute'' (Prim 0))
                    = example_store"
    using example_compute_own by (rule py_setattr_stored_value)
  have block: "with_stmt ?p (invoke 8 example_env 0 ''compute'' [VInt 5]) ?s1
                 = (Inr (VInt 11), example_store)"
    by (simp add: with_stmt_def TemporaryPatcher_enter_def TemporaryPatcher_exit_def inside
          restored)
  have outside: "invoke 8 example_env 0 ''compute'' [VInt 5] example_store
                   = (Inr (VInt 10), example_store)"
    using example_compute_getattr
    by (simp add: invoke_def eval_nat_numeral example_env_def example_prim_def compute_fn_def)
  show ?thesis
    using inst block outside by blast
qed

lemma scenario_modify_greet:
  "\<exists>p s1. modify_return_value example_env example_store 3 ''greet'' (VFun ''<lambda>'' (Prim 4))
              = (Inr (ContextObject p), s1)
     \<and> invoke 8 example_env 3 ''greet'' [VRef 6, VStr ''Sam''] s1
          = (Inr (VStr ''HI SAM''), s1)"
proof -
  let ?m = "django_curry (wrapper_function WModify)
              [VFun ''<lambda>'' (Prim 4), VFun ''greet'' (Prim 1)]"
  let ?p = "\<lparr>class_or_instance = 3, method_name = ''greet'',
             original_function = VFun ''greet'' (Prim 1), replacement_function = ?m\<rparr>"
  let ?s1 = "py_setattr example_store 3 ''greet'' ?m"
  have inst: "modify_return_value example_env example_store 3 ''greet''
                (VFun ''<lambda>'' (Prim 4)) = (Inr (ContextObject ?p), ?s1)"
    unfolding modify_return_value_def
    by (rule immediate_plain [OF example_greet function_not_cached_property
          user_function_not_memoized function_callable example_greet_getattr])
  have run: "invoke 8 example_env 3 ''greet'' [VRef 6, VStr ''Sam''] ?s1
               = (Inr (VStr ''HI SAM''), ?s1)"
    by (simp add: invoke_def eval_nat_numeral django_curry_def wrapper_function_def
          wrapper_with_modify_def example_env_def example_prim_def greet_fn_def
          upper_result_def upper_char_def)
  show ?thesis
    using inst run by blast
qed

section \<open>Deferred mode\<close>











text \<open>
  Claim C7. \<^verbatim>\<open>before\<close> on a member the target has returns a decorator and changes nothing.
  Applied to a function of the user, the decorator installs \<^verbatim>\<open>wrapper_with_before\<close>, and
  from then on invoking the member runs the function of the user on the call arguments, drops
  what it returns, then runs the original function on the same arguments and returns its
  result. An exception of the function of the user is passed on and the original does not run.
\<close>

theorem before_decorator_runs_first:
  assumes "py_getattr s t n = Inr orig"
  shows "\<exists>bd w s1. before s t n = (Inr bd, s)
           \<and> before_decorator_apply bd bf s = (Inr w, s1)
           \<and> py_getattr s1 t n = Inr w
           \<and> (\<forall>d args st. call (Suc d) E w args st =
                 (case call d E bf args st of
                    (Inl e, st1) \<Rightarrow> (Inl e, st1)
                  | (Inr ignored, st1) \<Rightarrow> call d E orig args st1))
           \<and> (\<forall>d args. invoke (Suc d) E t n args s1 =
                 (case call d E bf args s1 of
                    (Inl e, st1) \<Rightarrow> (Inl e, st1)
                  | (Inr ignored, st1) \<Rightarrow> call d E orig args st1))"
  using assms
  by (simp add: before_def before_decorator_apply_def invoke_def wrapper_with_before_def Let_def
        split: prod.splits sum.splits)

theorem before_decorator_runs_first_witness:
  "py_getattr example_store 3 ''greet'' = Inr (VFun ''greet'' (Prim 1))
   \<and> (\<exists>bd w s1. before example_store 3 ''greet'' = (Inr bd, example_store)
           \<and> before_decorator_apply bd (VFun ''log_call'' (Prim 3)) example_store = (Inr w, s1)
           \<and> py_getattr s1 3 ''greet'' = Inr w
           \<and> (\<forall>d args st. call (Suc d) example_env w args st =
                 (case call d example_env (VFun ''log_call'' (Prim 3)) args st of
                    (Inl e, st1) \<Rightarrow> (Inl e, st1)
                  | (Inr ignored, st1) \<Rightarrow> call d example_env (VFun ''greet'' (Prim 1)) args st1))
           \<and> (\<forall>d args. invoke (Suc d) example_env 3 ''greet'' args s1 =
                 (case call d example_env (VFun ''log_call'' (Prim 3)) args s1 of
                    (Inl e, st1) \<Rightarrow> (Inl e, st1)
                  | (Inr ignored, st1) \<Rightarrow> call d example_env (VFun ''greet'' (Prim 1)) args st1)))"
  using before_decorator_runs_first [OF example_greet_getattr,
      of "VFun ''log_call'' (Prim 3)" example_env] example_greet_getattr
  by simp

text \<open>
  The scenario of the specification: with the logging function installed by \<^verbatim>\<open>before\<close>,
  \<^verbatim>\<open>Greeter().greet("Sam")\<close> returns \<^verbatim>\<open>"Hi Sam"\<close> and the log gains one entry, the call
  arguments.
\<close>

lemma scenario_before_greet:
  "\<exists>bd w s1. before example_store 3 ''greet'' = (Inr bd, example_store)
     \<and> before_decorator_apply bd (VFun ''log_call'' (Prim 3)) example_store = (Inr w, s1)
     \<and> invoke 8 example_env 3 ''greet'' [VRef 6, VStr ''Sam''] s1
          = (Inr (VStr ''Hi Sam''),
             py_setattr s1 5 ''log'' (VList [VList [VRef 6, VStr ''Sam'']]))"
proof -
  let ?w = "VFun ''wrapper_with_before''
              (WrapperWithBefore (VFun ''log_call'' (Prim 3)) (VFun ''greet'' (Prim 1)))"
  let ?s1 = "py_setattr example_store 3 ''greet'' ?w"
  have log: "\<And>v. py_dict (py_setattr example_store 3 ''greet'' v 5) ''log'' = Some (VList [])"
    by (simp add: py_setattr_def example_defs)
  have run: "invoke 8 example_env 3 ''greet'' [VRef 6, VStr ''Sam''] ?s1
          = (Inr (VStr ''Hi Sam''),
             py_setattr ?s1 5 ''log'' (VList [VList [VRef 6, VStr ''Sam'']]))"
    by (simp add: invoke_def call_numeral wrapper_with_before_def example_env_def
          example_prim_def log_call_def greet_fn_def log)
  show ?thesis
    using example_greet_getattr run
    by (simp add: before_def before_decorator_apply_def Let_def)
qed

section \<open>insert\<close>

lemma insert_existing_name:
  "py_in_dir s t n \<Longrightarrow>
     insert_fn E s t n r = (Inl (TypeError ''not enough arguments for format string''), s)"
  by (simp add: insert_fn_def)

lemma insert_new_fn:
  "insert_fn example_env example_store 0 ''new_fn'' (VFun ''<lambda>'' (Prim 5)) =
     (Inr (ContextObject
        \<lparr>class_or_instance = 0, method_name = ''new_fn'', original_function = VNone,
         replacement_function =
           django_curry (wrapper_function WInsert) [VFun ''<lambda>'' (Prim 5), VNone]\<rparr>),
      py_setattr example_store 0 ''new_fn''
        (django_curry (wrapper_function WInsert) [VFun ''<lambda>'' (Prim 5), VNone]))"
proof -
  let ?s0 = "py_setattr example_store 0 ''new_fn'' VNone"
  have "get_dict_attr ?s0 0 ''new_fn'' = Inr VNone" by simp
  moreover have "\<not> is_cached_property ?s0 VNone" by (simp add: is_cached_property_def)
  moreover have "\<not> looks_memoized ?s0 VNone" by (simp add: looks_memoized_def)
  moreover have "py_getattr ?s0 0 ''new_fn'' = Inr VNone" by simp
  ultimately show ?thesis
    using example_new_fn_fresh
      immediate_plain [of ?s0 0 "''new_fn''" VNone "VFun ''<lambda>'' (Prim 5)" VNone
        example_env "wrapper_function WInsert"]
    by (simp add: insert_fn_def function_callable)
qed

lemma call_inserted_new_fn:
  "invoke 8 example_env 0 ''new_fn'' []
     (py_setattr s 0 ''new_fn''
        (django_curry (wrapper_function WInsert) [VFun ''<lambda>'' (Prim 5), VNone]))
   = (Inr (VInt 42),
      py_setattr s 0 ''new_fn''
        (django_curry (wrapper_function WInsert) [VFun ''<lambda>'' (Prim 5), VNone]))"
  by (simp add: invoke_def eval_nat_numeral django_curry_def wrapper_function_def
        wrapper_with_insert_def example_env_def example_prim_def forty_two_def)

text \<open>
  The row of \<^verbatim>\<open>insert\<close> in the table of combinators. \<^verbatim>\<open>insert\<close> of a fresh name with
  a callable replacement returns a patcher, and from then on invoking the member is calling the
  replacement on the call arguments alone; the placeholder is never called.
\<close>

theorem insert_immediate:
  assumes "\<not> py_in_dir s t n" "py_hasattr (py_setattr s t n VNone) r ''__call__''"
  shows "\<exists>p s1 m. insert_fn E s t n r = (Inr (ContextObject p), s1)
           \<and> py_getattr s1 t n = Inr m
           \<and> (\<forall>d args st. call (Suc (Suc d)) E m args st = call d E r args st)
           \<and> (\<forall>d args. invoke (Suc (Suc d)) E t n args s1 = call d E r args s1)"
proof -
  let ?s0 = "py_setattr s t n VNone"
  have g: "get_dict_attr ?s0 t n = Inr VNone" by simp
  have c: "\<not> is_cached_property ?s0 VNone" by (simp add: is_cached_property_def)
  have m: "\<not> looks_memoized ?s0 VNone" by (simp add: looks_memoized_def)
  have g': "py_getattr ?s0 t n = Inr VNone" by simp
  show ?thesis
    using assms(1) immediate_plain [OF g c m assms(2) g', of E "wrapper_function WInsert"]
    by (simp add: insert_fn_def invoke_def call_curried_wrapper wrapper_with_insert_def
          del: call.simps)
qed

theorem insert_immediate_witness:
  "\<not> py_in_dir example_store 0 ''new_fn''
   \<and> py_hasattr (py_setattr example_store 0 ''new_fn'' VNone) (VFun ''<lambda>'' (Prim 5))
        ''__call__''
   \<and> (\<exists>p s1 m. insert_fn example_env example_store 0 ''new_fn'' (VFun ''<lambda>'' (Prim 5))
                   = (Inr (ContextObject p), s1)
           \<and> py_getattr s1 0 ''new_fn'' = Inr m
           \<and> (\<forall>d args st. call (Suc (Suc d)) example_env m args st
                 = call d example_env (VFun ''<lambda>'' (Prim 5)) args st)
           \<and> (\<forall>d args. invoke (Suc (Suc d)) example_env 0 ''new_fn'' args s1
                 = call d example_env (VFun ''<lambda>'' (Prim 5)) args s1))"
proof -
  have h2: "py_hasattr (py_setattr example_store 0 ''new_fn'' VNone)
              (VFun ''<lambda>'' (Prim 5)) ''__call__''"
    by (rule function_callable)
  show ?thesis
    using insert_immediate [OF example_new_fn_fresh h2, of example_env] example_new_fn_fresh h2
    by simp
qed

text \<open>
  Claim C10. \<^verbatim>\<open>insert\<close> of a fresh name first binds the name to the placeholder
  \<^verbatim>\<open>None\<close> (line 378), then builds the patcher on the store that has the placeholder: the
  patcher reads the placeholder as its original function, which is not callable, and installs
  the replacement, curried when it is callable, in the namespace of the target. The store
  \<^verbatim>\<open>insert\<close> returns is the store of before with the name bound to that replacement, and
  nothing else changed. After the \<^verbatim>\<open>with\<close> block around the patcher, whatever the block
  did and however it ended, the store is the one the block left with the name bound to
  \<^verbatim>\<open>None\<close>: the name, absent before \<^verbatim>\<open>insert\<close>, is still in the namespace of the
  target.
\<close>

theorem insert_guard_keeps_placeholder:
  assumes "\<not> py_in_dir s t n" "r \<noteq> VNone"
  shows "\<exists>p s1. insert_fn E s t n r = (Inr (ContextObject p), s1)
           \<and> class_or_instance p = t \<and> method_name p = n
           \<and> original_function p = VNone
           \<and> \<not> py_hasattr s1 (original_function p) ''__call__''
           \<and> (\<forall>body. py_dict (snd (with_stmt p body s1) t) n = Some VNone
                    \<and> py_getattr (snd (with_stmt p body s1)) t n = Inr VNone
                    \<and> py_in_dir (snd (with_stmt p body s1)) t n)
           \<and> py_dict (s t) n = None
           \<and> py_getattr (py_setattr s t n VNone) t n = Inr VNone
           \<and> TemporaryPatcher_init (py_setattr s t n VNone) t n (replacement_function p)
               = (Inr p, s1)
           \<and> replacement_function p
               = (if py_hasattr (py_setattr s t n VNone) r ''__call__''
                  then django_curry (wrapper_function WInsert) [r, VNone] else r)
           \<and> s1 = py_setattr s t n (replacement_function p)
           \<and> py_dict (s1 t) n = Some (replacement_function p)
           \<and> py_getattr s1 t n = Inr (replacement_function p)
           \<and> (\<forall>a. a \<noteq> t \<longrightarrow> s1 a = s a)
           \<and> (\<forall>k. k \<noteq> n \<longrightarrow> py_dict (s1 t) k = py_dict (s t) k)
           \<and> (\<forall>body. snd (with_stmt p body s1) = py_setattr (snd (body s1)) t n VNone)"
proof -
  define s0 where "s0 = py_setattr s t n VNone"
  define inst where "inst = (if py_hasattr s0 r ''__call__''
               then django_curry (wrapper_function WInsert) [r, VNone] else r)"
  define p where "p = \<lparr>class_or_instance = t, method_name = n, original_function = VNone,
             replacement_function = inst\<rparr>"
  define s1 where "s1 = py_setattr s t n inst"
  have sel: "class_or_instance p = t" "method_name p = n" "original_function p = VNone"
    "replacement_function p = inst"
    by (simp_all add: p_def)
  have res: "resolve s0 t n = Inr (t, VNone, n)"
    by (simp add: s0_def resolve_def is_cached_property_def)
  have nm: "\<not> looks_memoized s0 VNone"
    by (simp add: looks_memoized_def)
  have rd0: "py_getattr s0 t n = Inr VNone"
    by (simp add: s0_def)
  have init: "TemporaryPatcher_init s0 t n inst = (Inr p, s1)"
    by (simp add: TemporaryPatcher_init_def rd0 p_def s1_def s0_def)
  have gd: "get_decorator_or_context_object E s0 t n (wrapper_function WInsert) r
              = (Inr (ContextObject p), s1)"
    using assms(2) init
    by (auto simp: get_decorator_or_context_object_def res nm inst_def split: if_splits)
  have ins: "insert_fn E s t n r = (Inr (ContextObject p), s1)"
    using assms(1) gd by (simp add: insert_fn_def s0_def)
  have absent: "py_dict (s t) n = None"
    using assms(1) by (auto simp: py_in_dir_def split: if_splits option.splits)
  have leave: "\<And>body. snd (with_stmt p body s1) = py_setattr (snd (body s1)) t n VNone"
    by (simp add: with_stmt_def TemporaryPatcher_enter_def TemporaryPatcher_exit_def sel
        split: prod.splits sum.splits)
  have kept: "\<And>body. py_dict (snd (with_stmt p body s1) t) n = Some VNone
                    \<and> py_getattr (snd (with_stmt p body s1)) t n = Inr VNone
                    \<and> py_in_dir (snd (with_stmt p body s1)) t n"
    by (simp add: leave py_in_dir_def)
  have others: "\<And>a. a \<noteq> t \<Longrightarrow> s1 a = s a"
    by (simp add: s1_def py_setattr_def)
  have names: "\<And>k. k \<noteq> n \<Longrightarrow> py_dict (s1 t) k = py_dict (s t) k"
    by (simp add: s1_def py_setattr_def)
  have stored: "py_dict (s1 t) n = Some inst"
    by (simp add: s1_def)
  have read: "py_getattr s1 t n = Inr inst"
    by (simp add: s1_def)
  have "insert_fn E s t n r = (Inr (ContextObject p), s1)
           \<and> class_or_instance p = t \<and> method_name p = n
           \<and> original_function p = VNone
           \<and> \<not> py_hasattr s1 (original_function p) ''__call__''
           \<and> (\<forall>body. py_dict (snd (with_stmt p body s1) t) n = Some VNone
                    \<and> py_getattr (snd (with_stmt p body s1)) t n = Inr VNone
                    \<and> py_in_dir (snd (with_stmt p body s1)) t n)
           \<and> py_dict (s t) n = None
           \<and> py_getattr (py_setattr s t n VNone) t n = Inr VNone
           \<and> TemporaryPatcher_init (py_setattr s t n VNone) t n (replacement_function p)
               = (Inr p, s1)
           \<and> replacement_function p
               = (if py_hasattr (py_setattr s t n VNone) r ''__call__''
                  then django_curry (wrapper_function WInsert) [r, VNone] else r)
           \<and> s1 = py_setattr s t n (replacement_function p)
           \<and> py_dict (s1 t) n = Some (replacement_function p)
           \<and> py_getattr s1 t n = Inr (replacement_function p)
           \<and> (\<forall>a. a \<noteq> t \<longrightarrow> s1 a = s a)
           \<and> (\<forall>k. k \<noteq> n \<longrightarrow> py_dict (s1 t) k = py_dict (s t) k)
           \<and> (\<forall>body. snd (with_stmt p body s1) = py_setattr (snd (body s1)) t n VNone)"
  proof (intro conjI allI impI)
    show "insert_fn E s t n r = (Inr (ContextObject p), s1)" by (rule ins)
    show "class_or_instance p = t" "method_name p = n" "original_function p = VNone"
      by (rule sel)+
    show "\<not> py_hasattr s1 (original_function p) ''__call__''" by (simp add: sel)
    show "py_dict (s t) n = None" by (rule absent)
    show "py_getattr (py_setattr s t n VNone) t n = Inr VNone" using rd0 by (simp add: s0_def)
    show "TemporaryPatcher_init (py_setattr s t n VNone) t n (replacement_function p)
               = (Inr p, s1)" using init by (simp add: sel s0_def)
    show "replacement_function p
               = (if py_hasattr (py_setattr s t n VNone) r ''__call__''
                  then django_curry (wrapper_function WInsert) [r, VNone] else r)"
      by (simp only: sel inst_def s0_def)
    show "s1 = py_setattr s t n (replacement_function p)" by (simp only: sel s1_def)
    show "py_dict (s1 t) n = Some (replacement_function p)" by (simp only: sel stored)
    show "py_getattr s1 t n = Inr (replacement_function p)" by (simp only: sel read)
  next
    fix body
    show "py_dict (snd (with_stmt p body s1) t) n = Some VNone" using kept by blast
    show "py_getattr (snd (with_stmt p body s1)) t n = Inr VNone" using kept by blast
    show "py_in_dir (snd (with_stmt p body s1)) t n" using kept by blast
    show "snd (with_stmt p body s1) = py_setattr (snd (body s1)) t n VNone" by (rule leave)
  next
    fix a :: addr assume "a \<noteq> t" then show "s1 a = s a" by (rule others)
  next
    fix k :: string assume "k \<noteq> n" then show "py_dict (s1 t) k = py_dict (s t) k" by (rule names)
  qed
  then show ?thesis by blast
qed

theorem insert_guard_keeps_placeholder_witness:
  "\<not> py_in_dir example_store 0 ''new_fn''
   \<and> VFun ''<lambda>'' (Prim 5) \<noteq> VNone
   \<and> (\<exists>p s1. insert_fn example_env example_store 0 ''new_fn'' (VFun ''<lambda>'' (Prim 5))
                 = (Inr (ContextObject p), s1)
           \<and> class_or_instance p = 0 \<and> method_name p = ''new_fn''
           \<and> original_function p = VNone
           \<and> \<not> py_hasattr s1 (original_function p) ''__call__''
           \<and> (\<forall>body. py_dict (snd (with_stmt p body s1) 0) ''new_fn'' = Some VNone
                    \<and> py_getattr (snd (with_stmt p body s1)) 0 ''new_fn'' = Inr VNone
                    \<and> py_in_dir (snd (with_stmt p body s1)) 0 ''new_fn'')
           \<and> py_dict (example_store 0) ''new_fn'' = None
           \<and> py_getattr (py_setattr example_store 0 ''new_fn'' VNone) 0 ''new_fn'' = Inr VNone
           \<and> TemporaryPatcher_init (py_setattr example_store 0 ''new_fn'' VNone) 0 ''new_fn''
                 (replacement_function p) = (Inr p, s1)
           \<and> replacement_function p
               = django_curry (wrapper_function WInsert) [VFun ''<lambda>'' (Prim 5), VNone]
           \<and> s1 = py_setattr example_store 0 ''new_fn''
                     (django_curry (wrapper_function WInsert)
                        [VFun ''<lambda>'' (Prim 5), VNone])
           \<and> py_getattr s1 0 ''new_fn''
               = Inr (django_curry (wrapper_function WInsert)
                        [VFun ''<lambda>'' (Prim 5), VNone])
           \<and> (\<forall>body. snd (with_stmt p body s1)
                        = py_setattr (snd (body s1)) 0 ''new_fn'' VNone))"
proof -
  have h2: "VFun ''<lambda>'' (Prim 5) \<noteq> VNone" by simp
  have c: "py_hasattr (py_setattr example_store 0 ''new_fn'' VNone)
             (VFun ''<lambda>'' (Prim 5)) ''__call__''"
    by (rule function_callable)
  obtain p s1 where
    a1: "insert_fn example_env example_store 0 ''new_fn'' (VFun ''<lambda>'' (Prim 5))
           = (Inr (ContextObject p), s1)"
    and a2: "class_or_instance p = 0" and a3: "method_name p = ''new_fn''"
    and a4: "original_function p = VNone"
    and a5: "\<not> py_hasattr s1 (original_function p) ''__call__''"
    and a6: "\<forall>body. py_dict (snd (with_stmt p body s1) 0) ''new_fn'' = Some VNone
                    \<and> py_getattr (snd (with_stmt p body s1)) 0 ''new_fn'' = Inr VNone
                    \<and> py_in_dir (snd (with_stmt p body s1)) 0 ''new_fn''"
    and a7: "py_dict (example_store 0) ''new_fn'' = None"
    and a8: "py_getattr (py_setattr example_store 0 ''new_fn'' VNone) 0 ''new_fn'' = Inr VNone"
    and a9: "TemporaryPatcher_init (py_setattr example_store 0 ''new_fn'' VNone) 0 ''new_fn''
                 (replacement_function p) = (Inr p, s1)"
    and a10: "replacement_function p
               = (if py_hasattr (py_setattr example_store 0 ''new_fn'' VNone)
                       (VFun ''<lambda>'' (Prim 5)) ''__call__''
                  then django_curry (wrapper_function WInsert)
                         [VFun ''<lambda>'' (Prim 5), VNone]
                  else VFun ''<lambda>'' (Prim 5))"
    and a11: "s1 = py_setattr example_store 0 ''new_fn'' (replacement_function p)"
    and a13: "py_getattr s1 0 ''new_fn'' = Inr (replacement_function p)"
    and a16: "\<forall>body. snd (with_stmt p body s1)
                        = py_setattr (snd (body s1)) 0 ''new_fn'' VNone"
    using insert_guard_keeps_placeholder [OF example_new_fn_fresh h2, of example_env]
    by (elim exE conjE) (rule that)
  have r: "replacement_function p
             = django_curry (wrapper_function WInsert) [VFun ''<lambda>'' (Prim 5), VNone]"
    using a10 c by (simp only: if_True)
  have s: "s1 = py_setattr example_store 0 ''new_fn''
                  (django_curry (wrapper_function WInsert)
                     [VFun ''<lambda>'' (Prim 5), VNone])"
    using a11 by (simp only: r)
  have g: "py_getattr s1 0 ''new_fn''
             = Inr (django_curry (wrapper_function WInsert)
                      [VFun ''<lambda>'' (Prim 5), VNone])"
    using a13 by (simp only: r)
  show ?thesis
    by (intro conjI exI [of _ p] exI [of _ s1])
       (rule example_new_fn_fresh h2 a1 a2 a3 a4 a5 a6 a7 a8 a9 r s g a16)+
qed

text \<open>
  Claim C2 on \<^verbatim>\<open>insert\<close>. Before \<^verbatim>\<open>insert(m, 'new_fn', lambda: 42)\<close> the module has no
  \<^verbatim>\<open>new_fn\<close> and invoking it is an \<^verbatim>\<open>AttributeError\<close>. Inside the \<^verbatim>\<open>with\<close> block
  \<^verbatim>\<open>m.new_fn()\<close> is 42. After the block the name is bound to \<^verbatim>\<open>None\<close> and invoking it is
  a \<^verbatim>\<open>TypeError\<close>: the member does not behave as it did before the patch.
\<close>

theorem insert_guard_leaves_none:
  "invoke 8 example_env 0 ''new_fn'' [] example_store
     = (Inl (AttributeError ''new_fn''), example_store)
   \<and> py_dict (example_store 0) ''new_fn'' = None
   \<and> fst (insert_fn example_env example_store 0 ''new_fn'' (VFun ''<lambda>'' (Prim 5)))
       = Inr (ContextObject
           \<lparr>class_or_instance = 0, method_name = ''new_fn'', original_function = VNone,
            replacement_function =
              django_curry (wrapper_function WInsert) [VFun ''<lambda>'' (Prim 5), VNone]\<rparr>)
   \<and> with_stmt
         \<lparr>class_or_instance = 0, method_name = ''new_fn'', original_function = VNone,
          replacement_function =
            django_curry (wrapper_function WInsert) [VFun ''<lambda>'' (Prim 5), VNone]\<rparr>
         (invoke 8 example_env 0 ''new_fn'' [])
         (snd (insert_fn example_env example_store 0 ''new_fn'' (VFun ''<lambda>'' (Prim 5))))
       = (Inr (VInt 42), py_setattr example_store 0 ''new_fn'' VNone)
   \<and> py_dict (py_setattr example_store 0 ''new_fn'' VNone 0) ''new_fn'' = Some VNone
   \<and> invoke 8 example_env 0 ''new_fn'' [] (py_setattr example_store 0 ''new_fn'' VNone)
       = (Inl (TypeError ''object is not callable''),
          py_setattr example_store 0 ''new_fn'' VNone)"
proof -
  let ?m = "django_curry (wrapper_function WInsert) [VFun ''<lambda>'' (Prim 5), VNone]"
  let ?p = "\<lparr>class_or_instance = 0, method_name = ''new_fn'', original_function = VNone,
         replacement_function = ?m\<rparr>"
  let ?s1 = "py_setattr example_store 0 ''new_fn'' ?m"
  let ?s2 = "py_setattr example_store 0 ''new_fn'' VNone"
  have before_patch: "invoke 8 example_env 0 ''new_fn'' [] example_store
       = (Inl (AttributeError ''new_fn''), example_store)"
    by (simp add: invoke_def example_new_fn_missing)
  have absent: "py_dict (example_store 0) ''new_fn'' = None"
    by (simp add: example_defs)
  have block: "with_stmt ?p (invoke 8 example_env 0 ''new_fn'' []) ?s1 = (Inr (VInt 42), ?s2)"
    by (simp add: with_stmt_def TemporaryPatcher_enter_def TemporaryPatcher_exit_def
          call_inserted_new_fn)
  have after_exit: "invoke 8 example_env 0 ''new_fn'' [] ?s2
          = (Inl (TypeError ''object is not callable''), ?s2)"
    by (simp add: invoke_def eval_nat_numeral)
  show ?thesis
    by (simp only: insert_new_fn fst_conv snd_conv before_patch absent block after_exit
          py_dict_py_setattr_same simp_thms)
qed

text \<open>
  Claim C4 on a name that exists. After \<^verbatim>\<open>insert(m, 'new_fn', lambda: 42)\<close>,
  \<^verbatim>\<open>m.new_fn()\<close> is 42, and a second \<^verbatim>\<open>insert\<close> of the name fails before it installs
  anything, the store unchanged; but what it raises is the \<^verbatim>\<open>TypeError\<close> of the string
  formatting in line 372, not a \<^verbatim>\<open>KeyError\<close>.
\<close>

theorem insert_collision_raises_type_error:
  "fst (insert_fn example_env example_store 0 ''new_fn'' (VFun ''<lambda>'' (Prim 5)))
     = Inr (ContextObject
         \<lparr>class_or_instance = 0, method_name = ''new_fn'', original_function = VNone,
          replacement_function =
            django_curry (wrapper_function WInsert) [VFun ''<lambda>'' (Prim 5), VNone]\<rparr>)
   \<and> invoke 8 example_env 0 ''new_fn'' []
         (snd (insert_fn example_env example_store 0 ''new_fn'' (VFun ''<lambda>'' (Prim 5))))
       = (Inr (VInt 42),
          snd (insert_fn example_env example_store 0 ''new_fn'' (VFun ''<lambda>'' (Prim 5))))
   \<and> py_in_dir
         (snd (insert_fn example_env example_store 0 ''new_fn'' (VFun ''<lambda>'' (Prim 5))))
         0 ''new_fn''
   \<and> insert_fn example_env
         (snd (insert_fn example_env example_store 0 ''new_fn'' (VFun ''<lambda>'' (Prim 5))))
         0 ''new_fn'' (VFun ''<lambda>'' (Prim 5))
       = (Inl (TypeError ''not enough arguments for format string''),
          snd (insert_fn example_env example_store 0 ''new_fn'' (VFun ''<lambda>'' (Prim 5))))"
proof -
  let ?m = "django_curry (wrapper_function WInsert) [VFun ''<lambda>'' (Prim 5), VNone]"
  let ?s1 = "py_setattr example_store 0 ''new_fn'' ?m"
  have d: "py_in_dir ?s1 0 ''new_fn''"
    by (simp add: py_in_dir_def)
  have again: "insert_fn example_env ?s1 0 ''new_fn'' (VFun ''<lambda>'' (Prim 5))
          = (Inl (TypeError ''not enough arguments for format string''), ?s1)"
    using d by (rule insert_existing_name)
  show ?thesis
    by (simp only: insert_new_fn fst_conv snd_conv call_inserted_new_fn d again simp_thms)
qed

end
